theory Spec2Isabelle
  imports Complex_Main "HOL-Library.Multiset"
begin

chapter \<open>The reading-position-bounded context accumulator of book-sync\<close>

text \<open>
  The development embeds the TypeScript sources of the context store
  (\<^verbatim>\<open>bookContextStore\<close>), the chat store (\<^verbatim>\<open>aiAssistantStore\<close>), the hooks
  \<^verbatim>\<open>useAIChat\<close> and \<^verbatim>\<open>useTextExtraction\<close> and the route \<^verbatim>\<open>/api/ai-assistant\<close>.
  Zustand's \<^verbatim>\<open>set\<close>/\<^verbatim>\<open>get\<close> become explicit state passing; an \<^verbatim>\<open>async\<close> function
  becomes its synchronous segments, one per resumption of an \<^verbatim>\<open>await\<close>.
\<close>

section \<open>JavaScript values\<close>

subsection \<open>Numbers\<close>

text \<open>
  A JavaScript \<^verbatim>\<open>number\<close> is a finite value, one of the two infinities, or NaN. Finite
  values are kept as rationals, of which the doubles are some; the two zeros are one
  value (they are equal under every operator used here). A string is read to the double
  nearest to its literal. The one arithmetic operation of the sources on stored numbers
  is the subtraction of the comparators, of which only the sign is used: the sign of the
  exact difference is the sign of the rounded one.
\<close>

datatype jsnum = NaN | NegInf | Fin rat | PosInf

text \<open>\<^verbatim>\<open>a < b\<close>: false as soon as one side is NaN.\<close>

fun js_lt :: "jsnum \<Rightarrow> jsnum \<Rightarrow> bool" where
  "js_lt NaN b = False"
| "js_lt a NaN = False"
| "js_lt a NegInf = False"
| "js_lt NegInf b = True"
| "js_lt PosInf b = False"
| "js_lt (Fin x) PosInf = True"
| "js_lt (Fin x) (Fin y) = (x < y)"

text \<open>\<^verbatim>\<open>a <= b\<close>: \<^verbatim>\<open>b < a\<close> is evaluated, and the answer is true when that is false
  and neither side is NaN.\<close>

definition js_le :: "jsnum \<Rightarrow> jsnum \<Rightarrow> bool" where
  "js_le a b = (a \<noteq> NaN \<and> b \<noteq> NaN \<and> \<not> js_lt b a)"

text \<open>\<^verbatim>\<open>a - b\<close>.\<close>

fun js_sub :: "jsnum \<Rightarrow> jsnum \<Rightarrow> jsnum" where
  "js_sub NaN b = NaN"
| "js_sub a NaN = NaN"
| "js_sub PosInf PosInf = NaN"
| "js_sub NegInf NegInf = NaN"
| "js_sub PosInf b = PosInf"
| "js_sub NegInf b = NegInf"
| "js_sub (Fin x) PosInf = NegInf"
| "js_sub (Fin x) NegInf = PosInf"
| "js_sub (Fin x) (Fin y) = Fin (x - y)"

text \<open>\<^verbatim>\<open>x || 0\<close> on a number: NaN and zero are the falsy numbers.\<close>

definition js_or_zero :: "jsnum \<Rightarrow> jsnum" where
  "js_or_zero x = (if x = NaN \<or> x = Fin 0 then Fin 0 else x)"

text \<open>\<^verbatim>\<open>a === b\<close> on two numbers: NaN is not equal to itself.\<close>

definition js_num_eq :: "jsnum \<Rightarrow> jsnum \<Rightarrow> bool" where
  "js_num_eq a b = (a \<noteq> NaN \<and> a = b)"

definition MAX_SAFE_INTEGER :: jsnum where
  "MAX_SAFE_INTEGER = Fin 9007199254740991"

text \<open>\<^verbatim>\<open>Math.max(...xs)\<close>: minus infinity on no argument, NaN as soon as one argument
  is NaN.\<close>

definition js_max2 :: "jsnum \<Rightarrow> jsnum \<Rightarrow> jsnum" where
  "js_max2 a b = (if a = NaN \<or> b = NaN then NaN else if js_lt a b then b else a)"

definition Math_max :: "jsnum list \<Rightarrow> jsnum" where
  "Math_max xs = foldl js_max2 NegInf xs"

subsection \<open>Strings\<close>

text \<open>
  Strings are lists of characters, one \<^typ>\<open>char\<close> per code unit; \<^verbatim>\<open>s.length\<close> is
  \<^const>\<open>length\<close>, \<^verbatim>\<open>s.slice(0, n)\<close> is \<^const>\<open>take\<close>. Code units above 255 are outside
  the type.
\<close>

text \<open>The white space and line terminators that \<^verbatim>\<open>trim\<close> and \<^verbatim>\<open>parseFloat\<close> strip:
  TAB, LF, VT, FF, CR, SP and NBSP.\<close>

definition is_ws :: "char \<Rightarrow> bool" where
  "is_ws c = (of_char c \<in> {9, 10, 11, 12, 13, 32, 160 :: nat})"

definition trim :: "string \<Rightarrow> string" where
  "trim s = rev (dropWhile is_ws (rev (dropWhile is_ws s)))"

text \<open>\<^verbatim>\<open>xs.join(sep)\<close>.\<close>

fun join :: "string \<Rightarrow> string list \<Rightarrow> string" where
  "join sep [] = []"
| "join sep [x] = x"
| "join sep (x # y # ys) = x @ sep @ join sep (y # ys)"

definition digit_char :: "nat \<Rightarrow> char" where
  "digit_char d = ''0123456789'' ! d"

text \<open>The decimal numeral of a natural number, as a template literal prints it.\<close>

fun decimal :: "nat \<Rightarrow> string" where
  "decimal n = (if n < 10 then [digit_char n] else decimal (n div 10) @ [digit_char (n mod 10)])"

declare decimal.simps [simp del]

subsection \<open>parseFloat\<close>

text \<open>The value of a decimal digit, by its code unit (\<^verbatim>\<open>0\<close> is 48).\<close>

definition digit_of :: "char \<Rightarrow> nat option" where
  "digit_of c =
     (let n = (of_char c :: nat) in if 48 \<le> n \<and> n \<le> 57 then Some (n - 48) else None)"

definition is_digit :: "char \<Rightarrow> bool" where
  "is_digit c = (digit_of c \<noteq> None)"

definition digits_value :: "string \<Rightarrow> int" where
  "digits_value ds =
     foldl (\<lambda>acc c. 10 * acc + (case digit_of c of Some d \<Rightarrow> int d | None \<Rightarrow> 0)) 0 ds"

text \<open>The number of binary digits of a positive integer.\<close>

function bitlen :: "int \<Rightarrow> int" where
  "bitlen n = (if n \<le> 0 then 0 else 1 + bitlen (n div 2))"
  by pat_completeness auto
termination
  by (relation "measure nat") auto

declare bitlen.simps [simp del]

text \<open>The integer nearest to \<open>num / den\<close>, the even one of two equally near.\<close>

definition round_half_even :: "int \<Rightarrow> int \<Rightarrow> int" where
  "round_half_even num den =
     (let q = num div den; r = num mod den
      in if 2 * r < den then q else if den < 2 * r then q + 1
         else if even q then q else q + 1)"

text \<open>
  The double nearest to the fraction \<open>N / D\<close> (\<open>N \<ge> 0\<close>, \<open>D > 0\<close>), as the conversion of
  a decimal literal rounds it: \<open>e\<close> is the binary exponent of the fraction, the result is
  a multiple of \<open>2\<^sup>q\<close> with \<open>q = e - 52\<close> and not below \<open>-1074\<close> (the spacing of the
  subnormal numbers, so that a small fraction rounds to zero), and a result of \<open>2\<^sup>1\<^sup>0\<^sup>2\<^sup>4\<close>
  or more is infinity.
\<close>

definition to_double :: "int \<Rightarrow> int \<Rightarrow> jsnum" where
  "to_double N D =
     (if N = 0 then Fin 0
      else
        let e0 = bitlen N - bitlen D;
            e = (if (if 0 \<le> e0 then D * 2 ^ nat e0 \<le> N else D \<le> N * 2 ^ nat (- e0))
                 then e0 else e0 - 1);
            q = max (e - 52) (- 1074);
            n = (if 0 \<le> q then round_half_even N (D * 2 ^ nat q)
                 else round_half_even (N * 2 ^ nat (- q)) D)
        in if 0 \<le> q
           then (if 2 ^ 1024 \<le> n * 2 ^ nat q then PosInf else Fin (of_int (n * 2 ^ nat q)))
           else Fin (of_int n / 2 ^ nat (- q)))"

text \<open>The exponent part \<^verbatim>\<open>e\<close>, \<^verbatim>\<open>E\<close> followed by an optionally signed run of digits;
  it belongs to the literal only when at least one digit follows.\<close>

definition exponent_part :: "string \<Rightarrow> int" where
  "exponent_part s =
     (case s of
        [] \<Rightarrow> 0
      | c # r \<Rightarrow>
          if c = CHR ''e'' \<or> c = CHR ''E'' then
            (case r of
               [] \<Rightarrow> 0
             | d # r' \<Rightarrow>
                 if d = CHR ''+'' then digits_value (takeWhile is_digit r')
                 else if d = CHR ''-'' then - digits_value (takeWhile is_digit r')
                 else digits_value (takeWhile is_digit r))
          else 0)"

text \<open>The unsigned literal: \<^verbatim>\<open>Infinity\<close>, or digits with an optional fraction and
  exponent, rounded to a double; \<open>None\<close> when no prefix is a literal.\<close>

definition unsigned_literal :: "string \<Rightarrow> jsnum option" where
  "unsigned_literal s =
     (if take 8 s = ''Infinity'' then Some PosInf
      else
        let ip = takeWhile is_digit s;
            r1 = dropWhile is_digit s;
            has_dot = (r1 \<noteq> [] \<and> hd r1 = CHR ''.'');
            fp = (if has_dot then takeWhile is_digit (tl r1) else []);
            r2 = (if has_dot then dropWhile is_digit (tl r1) else r1);
            scale = exponent_part r2 - int (length fp)
        in if ip = [] \<and> fp = [] then None
           else Some (if 0 \<le> scale
                      then to_double (digits_value (ip @ fp) * 10 ^ nat scale) 1
                      else to_double (digits_value (ip @ fp)) (10 ^ nat (- scale))))"

definition js_neg :: "jsnum \<Rightarrow> jsnum" where
  "js_neg x = (case x of NaN \<Rightarrow> NaN | NegInf \<Rightarrow> PosInf | PosInf \<Rightarrow> NegInf | Fin r \<Rightarrow> Fin (- r))"

text \<open>\<^verbatim>\<open>parseFloat(s)\<close>: leading white space is skipped, the longest prefix that is a
  signed decimal literal is read, and NaN is the answer when there is none.\<close>

definition parseFloat :: "string \<Rightarrow> jsnum" where
  "parseFloat s =
     (let t = dropWhile is_ws s in
      case t of
        [] \<Rightarrow> NaN
      | c # r \<Rightarrow>
          if c = CHR ''-'' then (case unsigned_literal r of None \<Rightarrow> NaN | Some v \<Rightarrow> js_neg v)
          else if c = CHR ''+'' then (case unsigned_literal r of None \<Rightarrow> NaN | Some v \<Rightarrow> v)
          else (case unsigned_literal t of None \<Rightarrow> NaN | Some v \<Rightarrow> v))"

subsection \<open>Array.prototype.sort and findIndex\<close>

text \<open>
  \<^verbatim>\<open>xs.sort(cmp)\<close> is stable, and a comparator result that is NaN counts as zero. It
  is modelled by the stable insertion sort: an element moves behind the elements it
  compares greater than. For a comparator that is a consistent ordering this is the one
  result the language allows. For an inconsistent one (here: when a chunk is keyed by
  the number NaN) the language leaves the order to the engine, which returns some
  permutation; the insertion sort gives one of them, and engines give others.
\<close>

fun insert_cmp :: "('a \<Rightarrow> 'a \<Rightarrow> jsnum) \<Rightarrow> 'a \<Rightarrow> 'a list \<Rightarrow> 'a list" where
  "insert_cmp cmp x [] = [x]"
| "insert_cmp cmp x (y # ys) =
     (if js_lt (Fin 0) (cmp x y) then y # insert_cmp cmp x ys else x # y # ys)"

fun js_sort :: "('a \<Rightarrow> 'a \<Rightarrow> jsnum) \<Rightarrow> 'a list \<Rightarrow> 'a list" where
  "js_sort cmp [] = []"
| "js_sort cmp (x # xs) = insert_cmp cmp x (js_sort cmp xs)"

text \<open>\<^verbatim>\<open>xs.findIndex(p)\<close>: the first index whose element satisfies \<open>p\<close>; the result
  \<^verbatim>\<open>-1\<close> is \<open>None\<close>.\<close>

fun findIndex :: "('a \<Rightarrow> bool) \<Rightarrow> 'a list \<Rightarrow> nat option" where
  "findIndex p [] = None"
| "findIndex p (x # xs) =
     (if p x then Some 0 else (case findIndex p xs of None \<Rightarrow> None | Some i \<Rightarrow> Some (Suc i)))"

section \<open>The context store\<close>

text \<open>\<^verbatim>\<open>pageOrChapter: number | string\<close>.\<close>

datatype positionKey = PNum jsnum | PStr string

record BookContextChunk =
  pageOrChapter :: positionKey
  "text" :: string
  timestamp :: nat

record BookContextState =
  contextChunks :: "string \<rightharpoonup> BookContextChunk list"
  currentBookId :: "string option"
  currentPosition :: jsnum

definition initialContextState :: BookContextState where
  "initialContextState = \<lparr>contextChunks = Map.empty, currentBookId = None, currentPosition = Fin 0\<rparr>"

text \<open>\<^verbatim>\<open>a === b\<close> on two keys: a number and a string are never equal.\<close>

fun strict_eq :: "positionKey \<Rightarrow> positionKey \<Rightarrow> bool" where
  "strict_eq (PNum a) (PNum b) = js_num_eq a b"
| "strict_eq (PStr a) (PStr b) = (a = b)"
| "strict_eq (PNum a) (PStr b) = False"
| "strict_eq (PStr a) (PNum b) = False"

text \<open>The coercion written out three times in the source:
  \<^verbatim>\<open>typeof k === 'number' ? k : parseFloat(k) || 0\<close>.\<close>

definition keyNum :: "positionKey \<Rightarrow> jsnum" where
  "keyNum k = (case k of PNum n \<Rightarrow> n | PStr s \<Rightarrow> js_or_zero (parseFloat s))"

definition chunkPos :: "BookContextChunk \<Rightarrow> jsnum" where
  "chunkPos c = keyNum (pageOrChapter c)"

text \<open>The comparator \<^verbatim>\<open>(a, b) => aNum - bNum\<close>.\<close>

definition compareChunks :: "BookContextChunk \<Rightarrow> BookContextChunk \<Rightarrow> jsnum" where
  "compareChunks a b = js_sub (chunkPos a) (chunkPos b)"

text \<open>\<^verbatim>\<open>contextChunks.get(bookId) || []\<close>.\<close>

definition chunksOf :: "BookContextState \<Rightarrow> string \<Rightarrow> BookContextChunk list" where
  "chunksOf s bookId = (case contextChunks s bookId of None \<Rightarrow> [] | Some cs \<Rightarrow> cs)"

definition setCurrentBook :: "string \<Rightarrow> BookContextState \<Rightarrow> BookContextState" where
  "setCurrentBook bookId s =
     (let s1 = s\<lparr>currentBookId := Some bookId\<rparr> in
      if contextChunks s1 bookId = None
      then s1\<lparr>contextChunks := (contextChunks s1)(bookId \<mapsto> [])\<rparr>
      else s1)"

text \<open>
  The source mutates the book's array in place and stores it under the same key of a
  copied map; no other key holds that array, so the new state is the functional update.
\<close>

definition addContextChunk :: "string \<Rightarrow> BookContextChunk \<Rightarrow> BookContextState \<Rightarrow> BookContextState" where
  "addContextChunk bookId chunk s =
     (let existing = chunksOf s bookId;
          existingIndex = findIndex (\<lambda>c. strict_eq (pageOrChapter c) (pageOrChapter chunk)) existing;
          existing' =
            (case existingIndex of
               Some i \<Rightarrow>
                 if length (text chunk) > length (text (existing ! i))
                 then existing[i := chunk] else existing
             | None \<Rightarrow> js_sort compareChunks (existing @ [chunk]))
      in s\<lparr>contextChunks := (contextChunks s)(bookId \<mapsto> existing')\<rparr>)"

definition clearContext :: "string \<Rightarrow> BookContextState \<Rightarrow> BookContextState" where
  "clearContext bookId s = s\<lparr>contextChunks := (contextChunks s)(bookId := None)\<rparr>"

definition updatePosition :: "jsnum \<Rightarrow> BookContextState \<Rightarrow> BookContextState" where
  "updatePosition position s = s\<lparr>currentPosition := position\<rparr>"

text \<open>The local \<^verbatim>\<open>relevantChunks\<close> of \<^verbatim>\<open>getFullContext\<close> after its filter and sort;
  an omitted \<^verbatim>\<open>upToPosition\<close> is \<open>None\<close>.\<close>

definition maxPositionOf :: "jsnum option \<Rightarrow> jsnum" where
  "maxPositionOf upToPosition = (case upToPosition of Some p \<Rightarrow> p | None \<Rightarrow> MAX_SAFE_INTEGER)"

definition relevantChunks :: "string \<Rightarrow> jsnum option \<Rightarrow> BookContextState \<Rightarrow> BookContextChunk list" where
  "relevantChunks bookId upToPosition s =
     js_sort compareChunks
       (filter (\<lambda>chunk. js_le (chunkPos chunk) (maxPositionOf upToPosition)) (chunksOf s bookId))"

definition getFullContext :: "string \<Rightarrow> jsnum option \<Rightarrow> BookContextState \<Rightarrow> string" where
  "getFullContext bookId upToPosition s =
     join [CHR 0x0A, CHR 0x0A] (map text (relevantChunks bookId upToPosition s))"

definition getContextUpToPosition :: "string \<Rightarrow> jsnum \<Rightarrow> BookContextState \<Rightarrow> string" where
  "getContextUpToPosition bookId position s =
     join [CHR 0x0A, CHR 0x0A]
       (map text (filter (\<lambda>chunk. js_le (chunkPos chunk) position) (chunksOf s bookId)))"

definition hasContext :: "string \<Rightarrow> BookContextState \<Rightarrow> bool" where
  "hasContext bookId s = (length (chunksOf s bookId) > 0)"

text \<open>The operations that write the store, and a run of them from the initial state.\<close>

datatype context_op =
    SetCurrentBook string
  | AddContextChunk string BookContextChunk
  | ClearContext string
  | UpdatePosition jsnum

fun apply_context_op :: "BookContextState \<Rightarrow> context_op \<Rightarrow> BookContextState" where
  "apply_context_op s (SetCurrentBook b) = setCurrentBook b s"
| "apply_context_op s (AddContextChunk b c) = addContextChunk b c s"
| "apply_context_op s (ClearContext b) = clearContext b s"
| "apply_context_op s (UpdatePosition p) = updatePosition p s"

definition run_context_ops :: "context_op list \<Rightarrow> BookContextState \<Rightarrow> BookContextState" where
  "run_context_ops ops s = foldl apply_context_op s ops"

text \<open>The invariants the claims speak of.\<close>

definition distinct_keys :: "BookContextChunk list \<Rightarrow> bool" where
  "distinct_keys cs = sorted_wrt (\<lambda>a b. \<not> strict_eq (pageOrChapter a) (pageOrChapter b)) cs"

definition distinct_numeric :: "BookContextChunk list \<Rightarrow> bool" where
  "distinct_numeric cs = sorted_wrt (\<lambda>a b. \<not> js_num_eq (chunkPos a) (chunkPos b)) cs"

definition sorted_chunks :: "BookContextChunk list \<Rightarrow> bool" where
  "sorted_chunks cs = sorted_wrt (\<lambda>a b. js_le (chunkPos a) (chunkPos b)) cs"

definition nan_key :: "BookContextChunk \<Rightarrow> bool" where
  "nan_key c = (pageOrChapter c = PNum NaN)"

definition clean_sorted :: "BookContextChunk list \<Rightarrow> bool" where
  "clean_sorted cs = (sorted_chunks cs \<and> (\<forall>c\<in>set cs. \<not> nan_key c))"

definition no_nan_op :: "context_op \<Rightarrow> bool" where
  "no_nan_op op = (case op of AddContextChunk b c \<Rightarrow> \<not> nan_key c | _ \<Rightarrow> True)"

section \<open>The chat store\<close>

datatype Role = User | Assistant

record ChatMessage =
  msg_id :: string
  role :: Role
  content :: string
  msg_timestamp :: nat

record AIAssistantState =
  chatHistory :: "string \<rightharpoonup> ChatMessage list"
  isLoading :: bool
  streamingResponse :: string
  error :: "string option"

definition initialAssistantState :: AIAssistantState where
  "initialAssistantState =
     \<lparr>chatHistory = Map.empty, isLoading = False, streamingResponse = [], error = None\<rparr>"

definition getChatHistory :: "string \<Rightarrow> AIAssistantState \<Rightarrow> ChatMessage list" where
  "getChatHistory bookId s = (case chatHistory s bookId of None \<Rightarrow> [] | Some ms \<Rightarrow> ms)"

definition addMessage :: "string \<Rightarrow> ChatMessage \<Rightarrow> AIAssistantState \<Rightarrow> AIAssistantState" where
  "addMessage bookId message s =
     s\<lparr>chatHistory := (chatHistory s)(bookId \<mapsto> getChatHistory bookId s @ [message])\<rparr>"

definition setLoading :: "bool \<Rightarrow> AIAssistantState \<Rightarrow> AIAssistantState" where
  "setLoading loading s = s\<lparr>isLoading := loading\<rparr>"

definition setStreamingResponse :: "string \<Rightarrow> AIAssistantState \<Rightarrow> AIAssistantState" where
  "setStreamingResponse response s = s\<lparr>streamingResponse := response\<rparr>"

definition appendStreamingResponse :: "string \<Rightarrow> AIAssistantState \<Rightarrow> AIAssistantState" where
  "appendStreamingResponse chunk s = s\<lparr>streamingResponse := streamingResponse s @ chunk\<rparr>"

definition setError :: "string option \<Rightarrow> AIAssistantState \<Rightarrow> AIAssistantState" where
  "setError e s = s\<lparr>error := e\<rparr>"

definition clearChat :: "string \<Rightarrow> AIAssistantState \<Rightarrow> AIAssistantState" where
  "clearChat bookId s = s\<lparr>chatHistory := (chatHistory s)(bookId := None)\<rparr>"

text \<open>\<^verbatim>\<open>Date.now()\<close> is read twice, for the id and for the timestamp; the two readings
  are the arguments \<open>idNow\<close> and \<open>tsNow\<close>. The empty string is the one falsy string.\<close>

definition finalizeStreamingMessage :: "string \<Rightarrow> nat \<Rightarrow> nat \<Rightarrow> AIAssistantState \<Rightarrow> AIAssistantState" where
  "finalizeStreamingMessage bookId idNow tsNow s =
     (if streamingResponse s \<noteq> [] then
        setStreamingResponse []
          (addMessage bookId
             \<lparr>msg_id = ''assistant-'' @ decimal idNow, role = Assistant,
              content = streamingResponse s, msg_timestamp = tsNow\<rparr> s)
      else s)"

section \<open>The hook useAIChat\<close>

text \<open>The body of the POST to \<^verbatim>\<open>/api/ai-assistant\<close> (the interface \<^verbatim>\<open>ChatRequest\<close> of
  the route).\<close>

record ChatRequest =
  req_message :: string
  req_bookContext :: string
  req_bookTitle :: string
  req_bookAuthor :: "string option"
  req_currentPosition :: jsnum
  req_chatHistory :: "(Role \<times> string) list"

text \<open>A call of \<^verbatim>\<open>fetch\<close>: its body and the abort controller whose signal it carries.
  Controllers are numbered in the order of their allocation.\<close>

record fetch_call =
  fetch_body :: ChatRequest
  fetch_signal :: nat

text \<open>What a \<^verbatim>\<open>sendMessage\<close> callback has captured at the render that created it.\<close>

record chat_closure =
  cl_bookId :: string
  cl_bookTitle :: string
  cl_bookAuthor :: "string option"
  cl_isLoading :: bool
  cl_currentPosition :: jsnum

text \<open>What the callbacks share: the two stores, the ref holding the current controller,
  the controllers aborted so far, and the requests made of the transport.\<close>

record chat_world =
  assistant :: AIAssistantState
  bookContext :: BookContextState
  abortControllerRef :: "nat option"
  aborted :: "nat list"
  controllers :: nat
  fetches :: "fetch_call list"

definition initialChatWorld :: "BookContextState \<Rightarrow> chat_world" where
  "initialChatWorld ctx =
     \<lparr>assistant = initialAssistantState, bookContext = ctx, abortControllerRef = None,
      aborted = [], controllers = 0, fetches = []\<rparr>"

text \<open>\<^verbatim>\<open>xs.slice(-n)\<close>.\<close>

definition slice_last :: "nat \<Rightarrow> 'a list \<Rightarrow> 'a list" where
  "slice_last n xs = drop (length xs - n) xs"

definition no_content_error :: string where
  "no_content_error = ''No content has been read yet. Start reading to use the AI assistant!''"

definition unreachable_error :: string where
  "unreachable_error =
     ''Unable to reach the AI assistant. Check your connection and ensure the AI API key is configured.''"

text \<open>The \<^verbatim>\<open>finally\<close> block of \<^verbatim>\<open>sendMessage\<close>.\<close>

definition finally_block :: "chat_world \<Rightarrow> chat_world" where
  "finally_block w = w\<lparr>assistant := setLoading False (assistant w), abortControllerRef := None\<rparr>"

text \<open>How a call of \<^verbatim>\<open>sendMessage\<close> leaves its first synchronous segment: it returned
  at the guard, it returned at the empty-context check, or it is suspended at
  \<^verbatim>\<open>await fetch\<close> holding the signal of the controller it allocated.\<close>

datatype send_outcome = Ignored | NoContent | AwaitFetch nat

definition sendMessage_start ::
  "chat_closure \<Rightarrow> string \<Rightarrow> jsnum option \<Rightarrow> nat \<Rightarrow> nat \<Rightarrow> chat_world \<Rightarrow> send_outcome \<times> chat_world" where
  "sendMessage_start cl message position idNow tsNow w =
     (if trim message = [] \<or> cl_isLoading cl then (Ignored, w)
      else
        let w1 = (case abortControllerRef w of
                    Some k \<Rightarrow> w\<lparr>aborted := aborted w @ [k]\<rparr>
                  | None \<Rightarrow> w);
            k = controllers w1;
            w2 = w1\<lparr>abortControllerRef := Some k, controllers := Suc k\<rparr>;
            userMessage = \<lparr>msg_id = ''user-'' @ decimal idNow, role = User,
                           content = trim message, msg_timestamp = tsNow\<rparr>;
            w3 = w2\<lparr>assistant :=
                    setStreamingResponse []
                      (setError None
                        (setLoading True (addMessage (cl_bookId cl) userMessage (assistant w2))))\<rparr>;
            effectivePosition = (case position of Some p \<Rightarrow> p | None \<Rightarrow> cl_currentPosition cl);
            ctx = getFullContext (cl_bookId cl) (Some effectivePosition) (bookContext w3)
        in if trim ctx = [] then
             (NoContent,
              finally_block
                (w3\<lparr>assistant := setLoading False (setError (Some no_content_error) (assistant w3))\<rparr>))
           else
             (AwaitFetch k,
              w3\<lparr>fetches := fetches w3 @
                   [\<lparr>fetch_body =
                       \<lparr>req_message = content userMessage, req_bookContext = ctx,
                        req_bookTitle = cl_bookTitle cl, req_bookAuthor = cl_bookAuthor cl,
                        req_currentPosition = effectivePosition,
                        req_chatHistory =
                          map (\<lambda>m. (role m, content m))
                            (slice_last 10 (getChatHistory (cl_bookId cl) (assistant w3)))\<rparr>,
                      fetch_signal = k\<rparr>]\<rparr>))"

text \<open>What the \<^verbatim>\<open>catch\<close> block tells apart in a thrown value.\<close>

datatype js_error = AbortError | TypeError | OtherError string | NotAnError

definition catch_block :: "js_error \<Rightarrow> AIAssistantState \<Rightarrow> AIAssistantState" where
  "catch_block e a =
     (case e of
        AbortError \<Rightarrow> a
      | TypeError \<Rightarrow> setError (Some unreachable_error) a
      | OtherError msg \<Rightarrow> setError (Some msg) a
      | NotAnError \<Rightarrow> setError (Some ''Failed to get response'') a)"

text \<open>
  A chunk read from the response body is given as its non-blank lines, each classified
  the way the loop classifies it: the line \<^verbatim>\<open>data: [DONE]\<close>, a \<^verbatim>\<open>data:\<close> line whose JSON
  has a \<^verbatim>\<open>content\<close>, or any other line. \<^verbatim>\<open>break\<close> leaves the loop over the lines only.
\<close>

datatype sse_line = DoneLine | ContentLine string | OtherLine

fun process_lines :: "string \<Rightarrow> nat \<Rightarrow> nat \<Rightarrow> sse_line list \<Rightarrow> AIAssistantState \<Rightarrow> AIAssistantState" where
  "process_lines bookId idNow tsNow [] a = a"
| "process_lines bookId idNow tsNow (DoneLine # ls) a = finalizeStreamingMessage bookId idNow tsNow a"
| "process_lines bookId idNow tsNow (ContentLine c # ls) a =
     process_lines bookId idNow tsNow ls (if c \<noteq> [] then appendStreamingResponse c a else a)"
| "process_lines bookId idNow tsNow (OtherLine # ls) a = process_lines bookId idNow tsNow ls a"

text \<open>The \<^verbatim>\<open>await\<close> a suspended call is at, and what can resume it.\<close>

datatype send_phase = AtFetch | AtErrorBody | AtRead | Returned

datatype chat_event =
    FetchResolved bool bool
  | ErrorBodyResolved "string option"
  | ReadValue "sse_line list"
  | ReadDone
  | Rejected js_error

text \<open>
  One resumption of a suspended call, up to its next \<^verbatim>\<open>await\<close> or its return.
  \<open>FetchResolved ok body\<close> carries \<^verbatim>\<open>response.ok\<close> and whether \<^verbatim>\<open>response.body\<close> gives a
  reader; \<open>ErrorBodyResolved e\<close> carries \<^verbatim>\<open>errorData.error\<close>. An event that cannot
  resume the phase leaves everything as it is.
\<close>

definition sendMessage_resume ::
  "string \<Rightarrow> nat \<Rightarrow> nat \<Rightarrow> send_phase \<Rightarrow> chat_event \<Rightarrow> chat_world \<Rightarrow> send_phase \<times> chat_world" where
  "sendMessage_resume bookId idNow tsNow ph ev w =
     (let throw = (\<lambda>e. (Returned, finally_block (w\<lparr>assistant := catch_block e (assistant w)\<rparr>)))
      in case (ph, ev) of
        (AtFetch, Rejected e) \<Rightarrow> throw e
      | (AtFetch, FetchResolved ok body) \<Rightarrow>
          if \<not> ok then (AtErrorBody, w)
          else if \<not> body then throw (OtherError ''No response body'')
          else (AtRead, w)
      | (AtErrorBody, Rejected e) \<Rightarrow> throw e
      | (AtErrorBody, ErrorBodyResolved e) \<Rightarrow>
          throw (OtherError (case e of None \<Rightarrow> ''Failed to get response''
                             | Some m \<Rightarrow> if m = [] then ''Failed to get response'' else m))
      | (AtRead, Rejected e) \<Rightarrow> throw e
      | (AtRead, ReadValue ls) \<Rightarrow>
          (AtRead, w\<lparr>assistant := process_lines bookId idNow tsNow ls (assistant w)\<rparr>)
      | (AtRead, ReadDone) \<Rightarrow>
          (Returned,
           finally_block
             (w\<lparr>assistant :=
                  (if streamingResponse (assistant w) \<noteq> []
                   then finalizeStreamingMessage bookId idNow tsNow (assistant w)
                   else assistant w)\<rparr>))
      | _ \<Rightarrow> (ph, w))"

definition cancelRequest :: "chat_world \<Rightarrow> chat_world" where
  "cancelRequest w =
     (case abortControllerRef w of
        Some k \<Rightarrow> w\<lparr>aborted := aborted w @ [k], abortControllerRef := None,
                    assistant := setLoading False (assistant w)\<rparr>
      | None \<Rightarrow> w)"

definition clear :: "string \<Rightarrow> chat_world \<Rightarrow> chat_world" where
  "clear bookId w = w\<lparr>assistant := clearChat bookId (assistant w)\<rparr>"

text \<open>Everything that writes the chat store: the callbacks of the hook, each resumption
  of a suspended call, and the context store changing under the hook.\<close>

datatype chat_action =
    Send chat_closure string "jsnum option" nat nat
  | Resume string nat nat send_phase chat_event
  | Cancel
  | Clear string
  | ContextChanged BookContextState

fun apply_chat_action :: "chat_world \<Rightarrow> chat_action \<Rightarrow> chat_world" where
  "apply_chat_action w (Send cl message position idNow tsNow) =
     snd (sendMessage_start cl message position idNow tsNow w)"
| "apply_chat_action w (Resume bookId idNow tsNow ph ev) =
     snd (sendMessage_resume bookId idNow tsNow ph ev w)"
| "apply_chat_action w Cancel = cancelRequest w"
| "apply_chat_action w (Clear bookId) = clear bookId w"
| "apply_chat_action w (ContextChanged ctx) = w\<lparr>bookContext := ctx\<rparr>"

definition run_chat :: "chat_action list \<Rightarrow> chat_world \<Rightarrow> chat_world" where
  "run_chat acts w = foldl apply_chat_action w acts"

definition empty_assistant_message :: "ChatMessage \<Rightarrow> bool" where
  "empty_assistant_message m = (role m = Assistant \<and> content m = [])"

definition no_empty_assistant :: "AIAssistantState \<Rightarrow> bool" where
  "no_empty_assistant a = (\<forall>b. \<forall>m\<in>set (getChatHistory b a). \<not> empty_assistant_message m)"

section \<open>The hook useTextExtraction\<close>

text \<open>A JavaScript \<^verbatim>\<open>Set\<close> in insertion order.\<close>

definition set_add :: "'a \<Rightarrow> 'a list \<Rightarrow> 'a list" where
  "set_add x xs = (if x \<in> set xs then xs else xs @ [x])"

definition set_delete :: "'a \<Rightarrow> 'a list \<Rightarrow> 'a list" where
  "set_delete x xs = removeAll x xs"

text \<open>\<^verbatim>\<open>s.replace(/\s+/g, ' ')\<close>.\<close>

function collapse_ws :: "string \<Rightarrow> string" where
  "collapse_ws [] = []"
| "collapse_ws (c # cs) =
     (if is_ws c then CHR '' '' # collapse_ws (dropWhile is_ws cs) else c # collapse_ws cs)"
  by pat_completeness auto
termination
  by (relation "measure length") (auto simp: length_dropWhile_le less_Suc_eq_le)

text \<open>The chunk \<^verbatim>\<open>extractPDFPageText\<close> stores for a page.\<close>

definition pdfChunk :: "nat \<Rightarrow> string \<Rightarrow> nat \<Rightarrow> BookContextChunk" where
  "pdfChunk pageNum txt now =
     \<lparr>pageOrChapter = PNum (Fin (of_nat pageNum)),
      text = ''[Page '' @ decimal pageNum @ '']'' @ [CHR 0x0A] @ txt,
      timestamp = now\<rparr>"

text \<open>What the hook's callbacks share: the context store and the two refs. Page numbers
  are natural numbers.\<close>

record extraction_world =
  contextStore :: BookContextState
  extractionQueueRef :: "nat list"
  extractedPagesRef :: "nat list"

definition initialExtractionWorld :: extraction_world where
  "initialExtractionWorld =
     \<lparr>contextStore = initialContextState, extractionQueueRef = [], extractedPagesRef = []\<rparr>"

text \<open>
  One page's promise in \<^verbatim>\<open>extractPDFPagesUpTo\<close>: it is suspended at
  \<^verbatim>\<open>await pdfDoc.getPage(i)\<close>, or inside \<^verbatim>\<open>extractPDFPageText\<close> at
  \<^verbatim>\<open>await page.getTextContent()\<close>, or it has settled. A promise that has not settled
  has exactly one operation of the document in flight.
\<close>

datatype task_phase = AwaitGetPage | AwaitTextContent | Settled

datatype page_event =
    GetPageResolved
  | GetPageRejected
  | TextResolved "string list"
  | TextRejected

text \<open>\<^verbatim>\<open>extractPDFPageText\<close> up to its \<^verbatim>\<open>await\<close>.\<close>

definition extractPDFPageText_start :: "nat \<Rightarrow> extraction_world \<Rightarrow> task_phase \<times> extraction_world" where
  "extractPDFPageText_start pageNum w =
     (if pageNum \<in> set (extractedPagesRef w) \<or> pageNum \<in> set (extractionQueueRef w)
      then (Settled, w)
      else (AwaitTextContent, w\<lparr>extractionQueueRef := set_add pageNum (extractionQueueRef w)\<rparr>))"

text \<open>\<^verbatim>\<open>extractPDFPageText\<close> from its \<^verbatim>\<open>await\<close> on: the items of the text content
  (\<open>None\<close> when the promise rejects), then the \<^verbatim>\<open>finally\<close> block.\<close>

definition extractPDFPageText_resume ::
  "string \<Rightarrow> nat \<Rightarrow> nat \<Rightarrow> string list option \<Rightarrow> extraction_world \<Rightarrow> extraction_world" where
  "extractPDFPageText_resume bookId now pageNum items w =
     (let w1 =
        (case items of
           None \<Rightarrow> w
         | Some strs \<Rightarrow>
             let txt = trim (collapse_ws (join '' '' strs)) in
             if length txt > 0 then
               w\<lparr>contextStore := addContextChunk bookId (pdfChunk pageNum txt now) (contextStore w),
                 extractedPagesRef := set_add pageNum (extractedPagesRef w)\<rparr>
             else w)
      in w1\<lparr>extractionQueueRef := set_delete pageNum (extractionQueueRef w1)\<rparr>)"

text \<open>One resumption of a page's promise.\<close>

fun task_step ::
  "string \<Rightarrow> nat \<Rightarrow> nat \<Rightarrow> task_phase \<Rightarrow> page_event \<Rightarrow> extraction_world \<Rightarrow> task_phase \<times> extraction_world" where
  "task_step bookId now i AwaitGetPage GetPageRejected w = (Settled, w)"
| "task_step bookId now i AwaitGetPage GetPageResolved w = extractPDFPageText_start i w"
| "task_step bookId now i AwaitTextContent (TextResolved strs) w =
     (Settled, extractPDFPageText_resume bookId now i (Some strs) w)"
| "task_step bookId now i AwaitTextContent TextRejected w =
     (Settled, extractPDFPageText_resume bookId now i None w)"
| "task_step bookId now i ph ev w = (ph, w)"

text \<open>
  The first loop of \<^verbatim>\<open>extractPDFPagesUpTo\<close>. Each pushed promise is the result of
  calling an async function, which runs to its first \<^verbatim>\<open>await\<close> at once: when the loop
  ends, \<^verbatim>\<open>pdfDoc.getPage(i)\<close> has been called for every page the loop selected. The loop
  has no \<^verbatim>\<open>await\<close>, so nothing settles while it runs.
\<close>

definition extractPDFPagesUpTo_launch :: "nat \<Rightarrow> extraction_world \<Rightarrow> (nat \<times> task_phase) list" where
  "extractPDFPagesUpTo_launch currentPage w =
     map (\<lambda>i. (i, AwaitGetPage))
       (filter (\<lambda>i. i \<notin> set (extractedPagesRef w) \<and> i \<notin> set (extractionQueueRef w))
          [1..<Suc currentPage])"

text \<open>The second loop: \<^verbatim>\<open>slice(i, i + 3)\<close> for \<open>i = 0, 3, 6, \<dots>\<close>\<close>

fun batches_of_3 :: "'a list \<Rightarrow> 'a list list" where
  "batches_of_3 [] = []"
| "batches_of_3 (x # xs) = take 3 (x # xs) # batches_of_3 (drop 3 (x # xs))"

text \<open>The operations of the document in flight: one per promise that has not settled.\<close>

definition io_in_flight :: "(nat \<times> task_phase) list \<Rightarrow> nat" where
  "io_in_flight tasks = length (filter (\<lambda>t. snd t \<noteq> Settled) tasks)"

text \<open>The end of \<^verbatim>\<open>extractPDFPagesUpTo\<close>, once every batch has been awaited.\<close>

definition extractPDFPagesUpTo_finish :: "nat \<Rightarrow> extraction_world \<Rightarrow> extraction_world" where
  "extractPDFPagesUpTo_finish currentPage w =
     (let extractedPages = extractedPagesRef w;
          maxExtractedPage =
            (if length extractedPages > 0
             then Math_max (map (\<lambda>p. Fin (of_nat p)) (filter (\<lambda>p. p \<le> currentPage) extractedPages))
             else Fin (of_nat currentPage))
      in w\<lparr>contextStore := updatePosition maxExtractedPage (contextStore w)\<rparr>)"

text \<open>
  A document answers each page: \<^verbatim>\<open>getPage\<close> rejects, or \<^verbatim>\<open>getTextContent\<close> rejects, or
  the text content has the given items. A call that runs alone settles each of its
  promises by the events the document gives for its page.
\<close>

datatype page_answer = NoPage | NoText | Items "string list"

definition page_events :: "page_answer \<Rightarrow> page_event list" where
  "page_events a =
     (case a of
        NoPage \<Rightarrow> [GetPageRejected]
      | NoText \<Rightarrow> [GetPageResolved, TextRejected]
      | Items strs \<Rightarrow> [GetPageResolved, TextResolved strs])"

definition settle_task ::
  "string \<Rightarrow> nat \<Rightarrow> (nat \<Rightarrow> page_answer) \<Rightarrow> extraction_world \<Rightarrow> nat \<times> task_phase \<Rightarrow> extraction_world" where
  "settle_task bookId now doc w t =
     snd (foldl (\<lambda>(ph, w') ev. task_step bookId now (fst t) ph ev w') (snd t, w) (page_events (doc (fst t))))"

definition extractPDFPagesUpTo ::
  "string \<Rightarrow> nat \<Rightarrow> (nat \<Rightarrow> page_answer) \<Rightarrow> nat \<Rightarrow> extraction_world \<Rightarrow> extraction_world" where
  "extractPDFPagesUpTo bookId now doc currentPage w =
     extractPDFPagesUpTo_finish currentPage
       (foldl (\<lambda>w' batch. foldl (settle_task bookId now doc) w' batch) w
          (batches_of_3 (extractPDFPagesUpTo_launch currentPage w)))"

definition resetExtraction :: "extraction_world \<Rightarrow> extraction_world" where
  "resetExtraction w = w\<lparr>extractionQueueRef := [], extractedPagesRef := []\<rparr>"

section \<open>The route /api/ai-assistant\<close>

record AIConfig =
  provider :: string
  apiKey :: string
  baseUrl :: string
  model :: string

text \<open>The two environment variables; an unset or empty variable is falsy.\<close>

definition getAIConfig :: "string option \<Rightarrow> string option \<Rightarrow> AIConfig option" where
  "getAIConfig GROQ_API_KEY OPENAI_API_KEY =
     (case GROQ_API_KEY of
        Some k \<Rightarrow>
          if k \<noteq> [] then
            Some \<lparr>provider = ''openai-compatible'', apiKey = k,
                  baseUrl = ''https://api.groq.com/openai/v1/chat/completions'',
                  model = ''llama-3.1-8b-instant''\<rparr>
          else
            (case OPENAI_API_KEY of
               Some k' \<Rightarrow>
                 if k' \<noteq> [] then
                   Some \<lparr>provider = ''openai-compatible'', apiKey = k',
                         baseUrl = ''https://api.openai.com/v1/chat/completions'',
                         model = ''gpt-4o-mini''\<rparr>
                 else None
             | None \<Rightarrow> None)
      | None \<Rightarrow>
          (case OPENAI_API_KEY of
             Some k' \<Rightarrow>
               if k' \<noteq> [] then
                 Some \<lparr>provider = ''openai-compatible'', apiKey = k',
                       baseUrl = ''https://api.openai.com/v1/chat/completions'',
                       model = ''gpt-4o-mini''\<rparr>
               else None
           | None \<Rightarrow> None))"

datatype provider_role = RSystem | RUser | RAssistant

record provider_message =
  pm_role :: provider_role
  pm_content :: string

record provider_request =
  pr_url :: string
  pr_apiKey :: string
  pr_model :: string
  pr_messages :: "provider_message list"

text \<open>The responses the route gives before it reaches the provider.\<close>

datatype route_error = Unauthorized | BadRequest | NotConfigured

definition role_of :: "Role \<Rightarrow> provider_role" where
  "role_of r = (case r of User \<Rightarrow> RUser | Assistant \<Rightarrow> RAssistant)"

text \<open>The template literal of the system prompt; \<open>position\<close> is the position as the
  template prints it.\<close>

definition systemPrompt :: "string \<Rightarrow> string option \<Rightarrow> string \<Rightarrow> string" where
  "systemPrompt title author position =
     ''You are a reading assistant for '' @ [CHR 0x22] @ title @ [CHR 0x22]
     @ (case author of
          Some a \<Rightarrow> if a \<noteq> [] then '' by '' @ a else []
        | None \<Rightarrow> [])
     @ ''. The reader is currently at position '' @ position
     @ ''. IMPORTANT: Only discuss content from the provided context. Never reveal or hint at anything beyond what''
     @ [CHR 0x27] @ ''s shown - no spoilers.''"

definition contextMessage :: "string \<Rightarrow> string" where
  "contextMessage ctx =
     ''CONTEXT:'' @ [CHR 0x0A] @ take 12000 ctx
     @ (if length ctx > 12000 then [CHR 0x0A] @ ''[truncated]'' else [])"

text \<open>
  \<^verbatim>\<open>POST\<close> up to its call of the provider: \<open>authenticated\<close> is the outcome of the
  session check, \<open>numberToString\<close> is the conversion the template literal applies to
  \<^verbatim>\<open>currentPosition\<close>.
\<close>

definition POST ::
  "(jsnum \<Rightarrow> string) \<Rightarrow> bool \<Rightarrow> string option \<Rightarrow> string option \<Rightarrow> ChatRequest
     \<Rightarrow> route_error + provider_request" where
  "POST numberToString authenticated GROQ_API_KEY OPENAI_API_KEY body =
     (if \<not> authenticated then Inl Unauthorized
      else if req_message body = [] \<or> req_bookContext body = [] then Inl BadRequest
      else
        (case getAIConfig GROQ_API_KEY OPENAI_API_KEY of
           None \<Rightarrow> Inl NotConfigured
         | Some aiConfig \<Rightarrow>
             Inr \<lparr>pr_url = baseUrl aiConfig, pr_apiKey = apiKey aiConfig, pr_model = model aiConfig,
                  pr_messages =
                    [\<lparr>pm_role = RSystem,
                      pm_content = systemPrompt (req_bookTitle body) (req_bookAuthor body)
                                     (numberToString (req_currentPosition body))\<rparr>,
                     \<lparr>pm_role = RSystem, pm_content = contextMessage (req_bookContext body)\<rparr>]
                    @ map (\<lambda>(r, c). \<lparr>pm_role = role_of r, pm_content = c\<rparr>)
                        (slice_last 6 (req_chatHistory body))
                    @ [\<lparr>pm_role = RUser, pm_content = req_message body\<rparr>]\<rparr>))"

section \<open>Example inputs\<close>

text \<open>A book whose pages 20, 2, 10 and 5 are stored in that order.\<close>

abbreviation (input) four_pages :: BookContextState where
  "four_pages \<equiv>
     run_context_ops
       [SetCurrentBook ''b'', AddContextChunk ''b'' (pdfChunk 20 ''d'' 0),
        AddContextChunk ''b'' (pdfChunk 2 ''a'' 0), AddContextChunk ''b'' (pdfChunk 10 ''c'' 0),
        AddContextChunk ''b'' (pdfChunk 5 ''b'' 0)]
       initialContextState"

text \<open>A book keyed by numbers and by strings: a plain numeral, a word, a fraction and a
  negative numeral.\<close>

abbreviation (input) mixed_keys :: BookContextState where
  "mixed_keys \<equiv>
     run_context_ops
       [AddContextChunk ''b'' \<lparr>pageOrChapter = PNum (Fin 20), text = ''a'', timestamp = 0\<rparr>,
        AddContextChunk ''b'' \<lparr>pageOrChapter = PStr ''10'', text = ''b'', timestamp = 0\<rparr>,
        AddContextChunk ''b'' \<lparr>pageOrChapter = PStr ''abc'', text = ''c'', timestamp = 0\<rparr>,
        AddContextChunk ''b'' \<lparr>pageOrChapter = PStr ''0.3'', text = ''d'', timestamp = 0\<rparr>,
        AddContextChunk ''b'' \<lparr>pageOrChapter = PStr ''-5'', text = ''e'', timestamp = 0\<rparr>,
        AddContextChunk ''b'' \<lparr>pageOrChapter = PNum (Fin 2), text = ''f'', timestamp = 0\<rparr>]
       initialContextState"

abbreviation (input) page3_store :: BookContextState where
  "page3_store \<equiv>
     addContextChunk ''b'' \<lparr>pageOrChapter = PNum (Fin 3), text = ''ab'', timestamp = 0\<rparr>
       initialContextState"

abbreviation (input) one_page_store :: BookContextState where
  "one_page_store \<equiv> addContextChunk ''b'' (pdfChunk 2 ''text'' 0) initialContextState"

text \<open>A callback created while no request was loading, and two calls of it: the second
  while the first is suspended at its \<^verbatim>\<open>fetch\<close>, then the first resumed by the rejection
  its aborted signal causes.\<close>

abbreviation (input) example_closure :: chat_closure where
  "example_closure \<equiv>
     \<lparr>cl_bookId = ''b'', cl_bookTitle = ''t'', cl_bookAuthor = None,
      cl_isLoading = False, cl_currentPosition = Fin 2\<rparr>"

abbreviation (input) world_A :: chat_world where
  "world_A \<equiv>
     snd (sendMessage_start example_closure ''first'' None 11 11 (initialChatWorld one_page_store))"

abbreviation (input) world_B :: chat_world where
  "world_B \<equiv> snd (sendMessage_start example_closure ''second'' None 12 12 world_A)"

abbreviation (input) world_B_after_A :: chat_world where
  "world_B_after_A \<equiv> snd (sendMessage_resume ''b'' 13 13 AtFetch (Rejected AbortError) world_B)"

text \<open>A request answered by one content line, the end marker and the end of the body.\<close>

abbreviation (input) answered_request :: "chat_action list" where
  "answered_request \<equiv>
     [Send example_closure ''hi'' None 11 11,
      Resume ''b'' 12 12 AtFetch (FetchResolved True True),
      Resume ''b'' 13 13 AtRead (ReadValue [ContentLine ''Hello'', DoneLine]),
      Resume ''b'' 14 14 AtRead ReadDone]"

text \<open>A document whose page 2 has text and whose other pages have none.\<close>

abbreviation (input) blank_then_text :: "nat \<Rightarrow> page_answer" where
  "blank_then_text \<equiv> (\<lambda>i. if i = 2 then Items [''text''] else Items [])"

abbreviation (input) long_request :: ChatRequest where
  "long_request \<equiv>
     \<lparr>req_message = ''hi'', req_bookContext = replicate 12001 (CHR ''a''), req_bookTitle = ''T'',
      req_bookAuthor = None, req_currentPosition = Fin 2, req_chatHistory = []\<rparr>"

chapter \<open>Properties\<close>

section \<open>Numbers, sorting and searching\<close>

lemma js_le_trans: "js_le a b \<Longrightarrow> js_le b c \<Longrightarrow> js_le a c"
  by (cases a; cases b; cases c) (simp_all add: js_le_def)

lemma js_le_not_gt: "js_le a b \<Longrightarrow> \<not> js_lt b a"
  by (simp add: js_le_def)

lemma cmp_positive_iff: "a \<noteq> NaN \<Longrightarrow> b \<noteq> NaN \<Longrightarrow> js_lt (Fin 0) (js_sub a b) \<longleftrightarrow> js_lt b a"
  by (cases a; cases b) simp_all

lemma js_or_zero_not_NaN: "js_or_zero x \<noteq> NaN"
  by (simp add: js_or_zero_def)

lemma chunkPos_NaN_iff: "chunkPos c = NaN \<longleftrightarrow> nan_key c"
  by (cases "pageOrChapter c") (simp_all add: chunkPos_def keyNum_def nan_key_def js_or_zero_not_NaN)

lemma mset_insert_cmp: "mset (insert_cmp cmp x ys) = add_mset x (mset ys)"
  by (induction ys) simp_all

lemma mset_js_sort: "mset (js_sort cmp xs) = mset xs"
  by (induction xs) (simp_all add: mset_insert_cmp)

lemma set_insert_cmp: "set (insert_cmp cmp x ys) = insert x (set ys)"
  by (induction ys) auto

lemma set_js_sort: "set (js_sort cmp xs) = set xs"
  by (induction xs) (simp_all add: set_insert_cmp)

lemma sorted_insert_cmp:
  assumes "sorted_chunks ys" "\<not> nan_key x" "\<forall>y\<in>set ys. \<not> nan_key y"
  shows "sorted_chunks (insert_cmp compareChunks x ys)"
  using assms
proof (induction ys)
  case Nil
  then show ?case by (simp add: sorted_chunks_def)
next
  case (Cons y ys)
  have nx: "chunkPos x \<noteq> NaN" and ny: "chunkPos y \<noteq> NaN"
    using Cons.prems by (simp_all add: chunkPos_NaN_iff)
  show ?case
  proof (cases "js_lt (Fin 0) (compareChunks x y)")
    case True
    then have "js_lt (chunkPos y) (chunkPos x)"
      using nx ny by (simp add: compareChunks_def cmp_positive_iff)
    then have yx: "js_le (chunkPos y) (chunkPos x)"
      using nx ny by (cases "chunkPos x"; cases "chunkPos y") (simp_all add: js_le_def)
    have "sorted_chunks (insert_cmp compareChunks x ys)"
      using Cons by (simp add: sorted_chunks_def)
    then show ?thesis
      using True Cons.prems(1) yx
      by (auto simp: sorted_chunks_def set_insert_cmp)
  next
    case False
    then have xy: "js_le (chunkPos x) (chunkPos y)"
      using nx ny by (simp add: compareChunks_def cmp_positive_iff js_le_def)
    then show ?thesis
      using False Cons.prems(1)
      by (auto simp: sorted_chunks_def intro: js_le_trans)
  qed
qed

lemma sorted_js_sort:
  "\<forall>y\<in>set xs. \<not> nan_key y \<Longrightarrow> sorted_chunks (js_sort compareChunks xs)"
proof (induction xs)
  case Nil
  then show ?case by (simp add: sorted_chunks_def)
next
  case (Cons x xs)
  then show ?case
    by (simp add: sorted_insert_cmp set_js_sort)
qed

lemma findIndex_None: "findIndex p xs = None \<longleftrightarrow> (\<forall>x\<in>set xs. \<not> p x)"
  by (induction xs) (auto split: option.splits)

lemma findIndex_Some:
  "findIndex p xs = Some i \<Longrightarrow> i < length xs \<and> p (xs ! i) \<and> (\<forall>j<i. \<not> p (xs ! j))"
proof (induction xs arbitrary: i)
  case Nil
  then show ?case by simp
next
  case (Cons x xs)
  show ?case
  proof (cases "p x")
    case True
    then show ?thesis using Cons.prems by simp
  next
    case False
    then obtain k where k: "findIndex p xs = Some k" "i = Suc k"
      using Cons.prems by (auto split: option.splits)
    from Cons.IH[OF k(1)] False k(2) show ?thesis
      by (auto simp: nth_Cons split: nat.splits)
  qed
qed

subsection \<open>Strings read as numbers\<close>

text \<open>A numeral, a word, a fraction that is no double, a literal between two doubles, and
  the literals beyond the largest and below the smallest double.\<close>

lemma parseFloat_examples:
  "parseFloat ''3'' = Fin 3"
  "parseFloat ''10'' = Fin 10"
  "parseFloat ''-5'' = Fin (- 5)"
  "parseFloat ''abc'' = NaN"
  "parseFloat ''0.3'' = Fin (5404319552844595 / 18014398509481984)"
  "parseFloat ''2.0000000000000001'' = Fin 2"
  "parseFloat ''9007199254740993'' = Fin 9007199254740992"
  by code_simp+

lemma parseFloat_range:
  "parseFloat ''2e308'' = PosInf"
  "parseFloat ''1e-324'' = Fin 0"
  by code_simp+

lemma keyNum_examples:
  "keyNum (PStr ''3'') = Fin 3"
  "keyNum (PStr ''10'') = Fin 10"
  "keyNum (PStr ''-5'') = Fin (- 5)"
  "keyNum (PStr ''abc'') = Fin 0"
  "keyNum (PStr ''0.3'') = Fin (5404319552844595 / 18014398509481984)"
  "keyNum (PNum n) = n"
  by (simp_all add: keyNum_def parseFloat_examples js_or_zero_def)

section \<open>The context store\<close>

subsection \<open>Keys\<close>

lemma strict_eq_sym: "strict_eq a b = strict_eq b a"
  by (cases a; cases b) (auto simp: js_num_eq_def)

lemma strict_eq_trans: "strict_eq a b \<Longrightarrow> strict_eq b c \<Longrightarrow> strict_eq a c"
  by (cases a; cases b; cases c) (auto simp: js_num_eq_def)

lemma strict_eq_keyNum: "strict_eq a b \<Longrightarrow> keyNum a = keyNum b"
  by (cases a; cases b) (auto simp: js_num_eq_def keyNum_def)

lemma distinct_keys_insert_cmp:
  "distinct_keys (insert_cmp cmp x ys) \<longleftrightarrow> distinct_keys (x # ys)"
  by (induction ys) (auto simp: distinct_keys_def set_insert_cmp strict_eq_sym)

lemma distinct_keys_js_sort: "distinct_keys (js_sort cmp xs) \<longleftrightarrow> distinct_keys xs"
proof (induction xs)
  case Nil
  show ?case by simp
next
  case (Cons x xs)
  have "distinct_keys (js_sort cmp (x # xs)) \<longleftrightarrow> distinct_keys (x # js_sort cmp xs)"
    by (simp add: distinct_keys_insert_cmp)
  also have "\<dots> \<longleftrightarrow> distinct_keys (x # xs)"
    using Cons.IH by (simp add: distinct_keys_def set_js_sort)
  finally show ?case .
qed

lemma distinct_keys_snoc:
  "distinct_keys (xs @ [c]) \<longleftrightarrow>
     distinct_keys xs \<and> (\<forall>d\<in>set xs. \<not> strict_eq (pageOrChapter d) (pageOrChapter c))"
  by (auto simp: distinct_keys_def sorted_wrt_append)

lemma distinct_keys_update:
  assumes "distinct_keys xs" "i < length xs"
    and "strict_eq (pageOrChapter (xs ! i)) (pageOrChapter c)"
  shows "distinct_keys (xs[i := c])"
proof -
  have old: "\<And>a b. a < b \<Longrightarrow> b < length xs \<Longrightarrow>
      \<not> strict_eq (pageOrChapter (xs ! a)) (pageOrChapter (xs ! b))"
    using assms(1) by (simp add: distinct_keys_def sorted_wrt_iff_nth_less)
  have "\<not> strict_eq (pageOrChapter (xs[i := c] ! a)) (pageOrChapter (xs[i := c] ! b))"
    if "a < b" "b < length xs" for a b
  proof (cases "a = i")
    case True
    then have "b \<noteq> i" using that by simp
    then show ?thesis
      using True that assms(2,3) old[of i b]
      by (auto simp: nth_list_update dest: strict_eq_trans)
  next
    case False
    show ?thesis
    proof (cases "b = i")
      case True
      have "\<not> strict_eq (pageOrChapter (xs ! a)) (pageOrChapter c)"
      proof
        assume "strict_eq (pageOrChapter (xs ! a)) (pageOrChapter c)"
        moreover have "strict_eq (pageOrChapter c) (pageOrChapter (xs ! i))"
          using assms(3) by (simp add: strict_eq_sym)
        ultimately have "strict_eq (pageOrChapter (xs ! a)) (pageOrChapter (xs ! i))"
          by (rule strict_eq_trans)
        then show False using old[of a i] that True by simp
      qed
      then show ?thesis using True False that by (simp add: nth_list_update)
    next
      case nb: False
      then show ?thesis using False that old[of a b] by (simp add: nth_list_update)
    qed
  qed
  then show ?thesis
    by (simp add: distinct_keys_def sorted_wrt_iff_nth_less)
qed

lemma findIndex_distinct:
  assumes "distinct_keys cs" "i < length cs" "strict_eq (pageOrChapter (cs ! i)) k"
  shows "findIndex (\<lambda>c. strict_eq (pageOrChapter c) k) cs = Some i"
proof (cases "findIndex (\<lambda>c. strict_eq (pageOrChapter c) k) cs")
  case None
  then show ?thesis using assms(2,3) by (auto simp: findIndex_None)
next
  case (Some j)
  from findIndex_Some[OF Some]
  have j: "j < length cs" "strict_eq (pageOrChapter (cs ! j)) k" by simp_all
  have "strict_eq (pageOrChapter (cs ! j)) (pageOrChapter (cs ! i))"
    using j(2) assms(3) strict_eq_trans strict_eq_sym by blast
  moreover have "strict_eq (pageOrChapter (cs ! i)) (pageOrChapter (cs ! j))"
    using calculation by (simp add: strict_eq_sym)
  ultimately have "j = i"
    using assms(1,2) j(1)
    by (metis distinct_keys_def sorted_wrt_iff_nth_less linorder_neqE_nat)
  then show ?thesis using Some by simp
qed

subsection \<open>The operations, book by book\<close>

lemma chunksOf_addContextChunk:
  "chunksOf (addContextChunk b chunk s) b' =
     (if b' = b then
        (case findIndex (\<lambda>c. strict_eq (pageOrChapter c) (pageOrChapter chunk)) (chunksOf s b) of
           Some i \<Rightarrow> if length (text chunk) > length (text (chunksOf s b ! i))
                     then (chunksOf s b)[i := chunk] else chunksOf s b
         | None \<Rightarrow> js_sort compareChunks (chunksOf s b @ [chunk]))
      else chunksOf s b')"
  by (auto simp: addContextChunk_def chunksOf_def Let_def split: option.splits)

lemma chunksOf_setCurrentBook: "chunksOf (setCurrentBook b s) b' = chunksOf s b'"
  by (simp add: setCurrentBook_def chunksOf_def Let_def)

lemma chunksOf_clearContext:
  "chunksOf (clearContext b s) b' = (if b' = b then [] else chunksOf s b')"
  by (simp add: clearContext_def chunksOf_def)

lemma chunksOf_updatePosition: "chunksOf (updatePosition p s) b' = chunksOf s b'"
  by (simp add: updatePosition_def chunksOf_def)

lemma chunksOf_initial: "chunksOf initialContextState b = []"
  by (simp add: initialContextState_def chunksOf_def)

lemma distinct_keys_addContextChunk:
  assumes "distinct_keys (chunksOf s b')"
  shows "distinct_keys (chunksOf (addContextChunk b chunk s) b')"
proof (cases "b' = b")
  case False
  then show ?thesis using assms by (simp add: chunksOf_addContextChunk)
next
  case True
  let ?p = "\<lambda>c. strict_eq (pageOrChapter c) (pageOrChapter chunk)"
  show ?thesis
  proof (cases "findIndex ?p (chunksOf s b)")
    case None
    then have "\<forall>d\<in>set (chunksOf s b). \<not> ?p d"
      by (simp add: findIndex_None)
    then show ?thesis
      using None True assms
      by (simp add: chunksOf_addContextChunk distinct_keys_js_sort distinct_keys_snoc)
  next
    case (Some i)
    from findIndex_Some[OF Some] have "i < length (chunksOf s b)" "?p (chunksOf s b ! i)"
      by simp_all
    then have "distinct_keys ((chunksOf s b)[i := chunk])"
      using assms True by (simp add: distinct_keys_update)
    then show ?thesis
      using Some True assms by (simp add: chunksOf_addContextChunk)
  qed
qed

lemma distinct_keys_apply_op:
  "distinct_keys (chunksOf s b) \<Longrightarrow> distinct_keys (chunksOf (apply_context_op s op) b)"
  by (cases op)
     (simp_all add: distinct_keys_addContextChunk chunksOf_setCurrentBook chunksOf_clearContext
        chunksOf_updatePosition, simp add: distinct_keys_def)

lemma distinct_keys_run:
  "distinct_keys (chunksOf s b) \<Longrightarrow> distinct_keys (chunksOf (run_context_ops ops s) b)"
  unfolding run_context_ops_def
  by (induction ops arbitrary: s) (simp_all add: distinct_keys_apply_op)

lemma addContextChunk_at_key:
  assumes "contextChunks s b = Some cs" "distinct_keys cs" "i < length cs"
    and "strict_eq (pageOrChapter (cs ! i)) (pageOrChapter new)"
  shows "addContextChunk b new s =
           (if length (text new) > length (text (cs ! i))
            then s\<lparr>contextChunks := (contextChunks s)(b \<mapsto> cs[i := new])\<rparr>
            else s)"
proof -
  have "findIndex (\<lambda>c. strict_eq (pageOrChapter c) (pageOrChapter new)) cs = Some i"
    using assms(2-4) by (rule findIndex_distinct)
  then show ?thesis
    using assms(1) by (simp add: addContextChunk_def chunksOf_def Let_def map_upd_triv)
qed

lemma sorted_chunks_map: "sorted_chunks cs = sorted_wrt js_le (map chunkPos cs)"
  by (simp add: sorted_chunks_def sorted_wrt_map)

lemma clean_sorted_addContextChunk:
  assumes "clean_sorted (chunksOf s b')" "\<not> nan_key chunk"
  shows "clean_sorted (chunksOf (addContextChunk b chunk s) b')"
proof (cases "b' = b")
  case False
  then show ?thesis using assms by (simp add: chunksOf_addContextChunk)
next
  case True
  let ?p = "\<lambda>c. strict_eq (pageOrChapter c) (pageOrChapter chunk)"
  let ?cs = "chunksOf s b"
  show ?thesis
  proof (cases "findIndex ?p ?cs")
    case None
    have "\<forall>y\<in>set (?cs @ [chunk]). \<not> nan_key y"
      using assms True by (simp add: clean_sorted_def)
    then have "clean_sorted (js_sort compareChunks (?cs @ [chunk]))"
      unfolding clean_sorted_def by (simp add: sorted_js_sort set_js_sort)
    then show ?thesis using None True by (simp add: chunksOf_addContextChunk)
  next
    case (Some i)
    from findIndex_Some[OF Some] have i: "i < length ?cs" "?p (?cs ! i)"
      by simp_all
    then have "chunkPos (?cs ! i) = chunkPos chunk"
      by (simp add: chunkPos_def strict_eq_keyNum)
    then have "map chunkPos (?cs[i := chunk]) = map chunkPos ?cs"
      using i(1) by (simp add: map_update list_update_same_conv)
    then have "sorted_chunks (?cs[i := chunk])"
      using assms(1) True by (simp add: sorted_chunks_map clean_sorted_def)
    moreover have "\<forall>c\<in>set (?cs[i := chunk]). \<not> nan_key c"
      using assms True by (auto simp: clean_sorted_def dest!: set_update_subset_insert[THEN subsetD])
    ultimately show ?thesis
      using Some True assms by (simp add: chunksOf_addContextChunk clean_sorted_def)
  qed
qed

lemma clean_sorted_run:
  "clean_sorted (chunksOf s b) \<Longrightarrow> \<forall>op\<in>set ops. no_nan_op op \<Longrightarrow>
   clean_sorted (chunksOf (run_context_ops ops s) b)"
  unfolding run_context_ops_def
proof (induction ops arbitrary: s)
  case Nil
  then show ?case by simp
next
  case (Cons op ops)
  have "clean_sorted (chunksOf (apply_context_op s op) b)"
  proof (cases op)
    case (AddContextChunk b' c)
    then show ?thesis using Cons.prems by (simp add: clean_sorted_addContextChunk no_nan_op_def)
  next
    case (ClearContext b')
    then show ?thesis using Cons.prems
      by (simp add: chunksOf_clearContext clean_sorted_def sorted_chunks_def)
  qed (use Cons.prems in \<open>simp_all add: chunksOf_setCurrentBook chunksOf_updatePosition\<close>)
  then show ?case using Cons by simp
qed

lemma relevantChunks_mset:
  "mset (relevantChunks b up s) =
     filter_mset (\<lambda>c. js_le (chunkPos c) (maxPositionOf up)) (mset (chunksOf s b))"
  by (simp add: relevantChunks_def mset_js_sort)

lemma relevantChunks_set:
  "c \<in> set (relevantChunks b up s) \<longleftrightarrow>
     c \<in> set (chunksOf s b) \<and> js_le (chunkPos c) (maxPositionOf up)"
  by (simp add: relevantChunks_def set_js_sort)

lemma relevantChunks_sorted: "sorted_chunks (relevantChunks b up s)"
  unfolding relevantChunks_def
  by (rule sorted_js_sort) (auto simp: chunkPos_NaN_iff[symmetric] js_le_def)

subsection \<open>The example stores\<close>

lemma pdfChunk_key: "pageOrChapter (pdfChunk n t now) = PNum (Fin (of_nat n))"
  by (simp add: pdfChunk_def)

lemma pdfChunk_pos: "chunkPos (pdfChunk n t now) = Fin (of_nat n)"
  by (simp add: pdfChunk_def chunkPos_def keyNum_def)

lemma four_pages_chunks:
  "chunksOf four_pages ''b'' =
     [pdfChunk 2 ''a'' 0, pdfChunk 5 ''b'' 0, pdfChunk 10 ''c'' 0, pdfChunk 20 ''d'' 0]"
  by (simp add: run_context_ops_def chunksOf_addContextChunk chunksOf_setCurrentBook
      chunksOf_initial pdfChunk_key js_num_eq_def compareChunks_def pdfChunk_pos)

lemma mixed_keys_chunks:
  "map pageOrChapter (chunksOf mixed_keys ''b'') =
     [PStr ''-5'', PStr ''abc'', PStr ''0.3'', PNum (Fin 2), PStr ''10'', PNum (Fin 20)]"
  "map text (relevantChunks ''b'' (Some (Fin 10)) mixed_keys) = [''e'', ''c'', ''d'', ''f'', ''b'']"
  by code_simp+

lemma huge_key_store:
  "chunksOf (addContextChunk ''b''
       \<lparr>pageOrChapter = PNum (Fin 9007199254740992), text = ''x'', timestamp = 0\<rparr>
       initialContextState) ''b''
   = [\<lparr>pageOrChapter = PNum (Fin 9007199254740992), text = ''x'', timestamp = 0\<rparr>]"
  by (simp add: chunksOf_addContextChunk chunksOf_initial)

lemma page3_store_map:
  "contextChunks page3_store ''b'' = Some [\<lparr>pageOrChapter = PNum (Fin 3), text = ''ab'', timestamp = 0\<rparr>]"
  by (simp add: addContextChunk_def chunksOf_def initialContextState_def Let_def)

lemma page3_store_chunks:
  "chunksOf page3_store ''b'' = [\<lparr>pageOrChapter = PNum (Fin 3), text = ''ab'', timestamp = 0\<rparr>]"
  by (simp add: chunksOf_def page3_store_map)

lemma page3_store_reachable:
  "page3_store = run_context_ops
     [AddContextChunk ''b'' \<lparr>pageOrChapter = PNum (Fin 3), text = ''ab'', timestamp = 0\<rparr>]
     initialContextState"
  by (simp add: run_context_ops_def)

lemma example_nan_order:
  "chunksOf (run_context_ops
      [AddContextChunk ''b'' \<lparr>pageOrChapter = PNum (Fin 2), text = ''two'', timestamp = 0\<rparr>,
       AddContextChunk ''b'' \<lparr>pageOrChapter = PNum NaN, text = ''nan'', timestamp = 0\<rparr>,
       AddContextChunk ''b'' \<lparr>pageOrChapter = PNum (Fin 1), text = ''one'', timestamp = 0\<rparr>]
      initialContextState) ''b''
   = [\<lparr>pageOrChapter = PNum (Fin 2), text = ''two'', timestamp = 0\<rparr>,
      \<lparr>pageOrChapter = PNum NaN, text = ''nan'', timestamp = 0\<rparr>,
      \<lparr>pageOrChapter = PNum (Fin 1), text = ''one'', timestamp = 0\<rparr>]"
  by (simp add: run_context_ops_def chunksOf_addContextChunk chunksOf_initial js_num_eq_def
      compareChunks_def chunkPos_def keyNum_def)

lemma example_mixed_keys:
  "chunksOf (run_context_ops
      [AddContextChunk ''b'' \<lparr>pageOrChapter = PNum (Fin 3), text = ''ab'', timestamp = 0\<rparr>,
       AddContextChunk ''b'' \<lparr>pageOrChapter = PStr ''3'', text = ''cd'', timestamp = 0\<rparr>]
      initialContextState) ''b''
   = [\<lparr>pageOrChapter = PNum (Fin 3), text = ''ab'', timestamp = 0\<rparr>,
      \<lparr>pageOrChapter = PStr ''3'', text = ''cd'', timestamp = 0\<rparr>]"
  by (simp add: run_context_ops_def chunksOf_addContextChunk chunksOf_initial js_num_eq_def
      compareChunks_def chunkPos_def keyNum_examples)

subsection \<open>The bounded read\<close>

text \<open>
  A chunk of the book is among the chunks that a read bounded at \<open>P\<close> returns exactly
  when its numeric key (a number as it is, a string through \<^verbatim>\<open>parseFloat\<close>, NaN and zero
  read as 0) is at most \<open>P\<close>; so a chunk whose key exceeds \<open>P\<close> is never returned. A
  read whose bound is omitted is the read bounded at \<^verbatim>\<open>Number.MAX_SAFE_INTEGER\<close>. Each
  chunk is returned as often as it is stored, and the string read is the join of the
  returned chunks' texts.
\<close>

lemma bounded_read_iff:
  "(c \<in> set (relevantChunks b (Some P) s) \<longleftrightarrow> c \<in> set (chunksOf s b) \<and> js_le (chunkPos c) P)
   \<and> (js_lt P (chunkPos c) \<longrightarrow> c \<notin> set (relevantChunks b (Some P) s))
   \<and> (c \<in> set (relevantChunks b None s) \<longleftrightarrow>
        c \<in> set (chunksOf s b) \<and> js_le (chunkPos c) MAX_SAFE_INTEGER)
   \<and> mset (relevantChunks b up s) =
        filter_mset (\<lambda>c. js_le (chunkPos c) (maxPositionOf up)) (mset (chunksOf s b))
   \<and> getFullContext b up s = join [CHR 0x0A, CHR 0x0A] (map text (relevantChunks b up s))"
  by (auto simp: relevantChunks_set relevantChunks_mset maxPositionOf_def getFullContext_def
      dest: js_le_not_gt)

text \<open>The read of the pages 2, 5, 10 and 20: bounded at 9 it has page 5 and not page 10,
  bounded at 10 it has page 10, unbounded it has page 20. The read of the book keyed by
  numbers and strings: the chunk keyed \<open>0.3\<close> is read at the bound that is the double
  nearest to 0.3, the chunk keyed by a word is read at the bound 0.\<close>

lemma bounded_read_examples:
  "pdfChunk 5 ''b'' 0 \<in> set (relevantChunks ''b'' (Some (Fin 9)) four_pages)
   \<and> pdfChunk 10 ''c'' 0 \<notin> set (relevantChunks ''b'' (Some (Fin 9)) four_pages)
   \<and> pdfChunk 10 ''c'' 0 \<in> set (relevantChunks ''b'' (Some (Fin 10)) four_pages)
   \<and> pdfChunk 20 ''d'' 0 \<in> set (relevantChunks ''b'' None four_pages)"
  using bounded_read_iff[of "pdfChunk 5 ''b'' 0" "''b''" "Fin 9" four_pages None]
    bounded_read_iff[of "pdfChunk 10 ''c'' 0" "''b''" "Fin 9" four_pages None]
    bounded_read_iff[of "pdfChunk 10 ''c'' 0" "''b''" "Fin 10" four_pages None]
    bounded_read_iff[of "pdfChunk 20 ''d'' 0" "''b''" "Fin 10" four_pages None]
  unfolding four_pages_chunks
  by (simp add: pdfChunk_pos js_le_def MAX_SAFE_INTEGER_def)

lemma bounded_read_string_keys:
  "map text (relevantChunks ''b'' (Some (Fin (5404319552844595 / 18014398509481984))) mixed_keys)
     = [''e'', ''c'', ''d'']"
  "map text (relevantChunks ''b'' (Some (Fin 0)) mixed_keys) = [''e'', ''c'']"
  "map text (relevantChunks ''b'' (Some (Fin 9)) mixed_keys) = [''e'', ''c'', ''d'', ''f'']"
  "map text (relevantChunks ''b'' None mixed_keys) = [''e'', ''c'', ''d'', ''f'', ''b'', ''a'']"
  by code_simp+

text \<open>
  Claim C1, evaluated on the code. A chunk keyed \<open>2\<^sup>5\<^sup>3\<close> is stored for the book. The read
  whose bound is omitted compares its key with \<^verbatim>\<open>Number.MAX_SAFE_INTEGER\<close>, leaves it out
  and returns the empty string.
\<close>

theorem unbounded_read_omits_chunk:
  "\<lparr>pageOrChapter = PNum (Fin 9007199254740992), text = ''x'', timestamp = 0\<rparr>
     \<in> set (chunksOf (addContextChunk ''b''
          \<lparr>pageOrChapter = PNum (Fin 9007199254740992), text = ''x'', timestamp = 0\<rparr>
          initialContextState) ''b'')
   \<and> \<lparr>pageOrChapter = PNum (Fin 9007199254740992), text = ''x'', timestamp = 0\<rparr>
     \<notin> set (relevantChunks ''b'' None (addContextChunk ''b''
          \<lparr>pageOrChapter = PNum (Fin 9007199254740992), text = ''x'', timestamp = 0\<rparr>
          initialContextState))
   \<and> getFullContext ''b'' None (addContextChunk ''b''
          \<lparr>pageOrChapter = PNum (Fin 9007199254740992), text = ''x'', timestamp = 0\<rparr>
          initialContextState) = []"
  unfolding getFullContext_def relevantChunks_def huge_key_store
  by (simp add: chunkPos_def keyNum_def maxPositionOf_def MAX_SAFE_INTEGER_def js_le_def)

subsection \<open>Merging at a key already stored\<close>

text \<open>
  Claim C4. In every store that the operations produce from the initial store, let the
  book hold a chunk at index \<open>i\<close> whose key is strictly equal to the key of the new
  chunk. Then \<^verbatim>\<open>addContextChunk\<close> puts the new chunk at index \<open>i\<close> when its text is
  strictly longer than the stored text, and otherwise returns the store unchanged.
\<close>

theorem addContextChunk_merge:
  assumes "s = run_context_ops ops initialContextState"
    and "i < length (chunksOf s b)"
    and "strict_eq (pageOrChapter (chunksOf s b ! i)) (pageOrChapter new)"
  shows "addContextChunk b new s =
           (if length (text new) > length (text (chunksOf s b ! i))
            then s\<lparr>contextChunks := (contextChunks s)(b \<mapsto> (chunksOf s b)[i := new])\<rparr>
            else s)"
proof -
  have d: "distinct_keys (chunksOf s b)"
    unfolding assms(1) by (rule distinct_keys_run) (simp add: chunksOf_initial distinct_keys_def)
  have m: "contextChunks s b = Some (chunksOf s b)"
    using assms(2) by (cases "contextChunks s b") (simp_all add: chunksOf_def)
  show ?thesis
    by (rule addContextChunk_at_key[OF m d assms(2,3)])
qed

text \<open>Page 3 holds the text \<open>ab\<close>: the shorter \<open>a\<close> and the equally long \<open>xy\<close> leave the
  store as it is, the longer \<open>abcdef\<close> replaces the chunk.\<close>

theorem addContextChunk_merge_witness:
  "addContextChunk ''b'' \<lparr>pageOrChapter = PNum (Fin 3), text = ''a'', timestamp = 5\<rparr> page3_store
     = page3_store
   \<and> addContextChunk ''b'' \<lparr>pageOrChapter = PNum (Fin 3), text = ''xy'', timestamp = 5\<rparr> page3_store
     = page3_store
   \<and> chunksOf (addContextChunk ''b''
        \<lparr>pageOrChapter = PNum (Fin 3), text = ''abcdef'', timestamp = 5\<rparr> page3_store) ''b''
     = [\<lparr>pageOrChapter = PNum (Fin 3), text = ''abcdef'', timestamp = 5\<rparr>]"
proof -
  have i: "0 < length (chunksOf page3_store ''b'')"
    by (simp add: page3_store_chunks)
  have k: "\<And>t n. strict_eq (pageOrChapter (chunksOf page3_store ''b'' ! 0))
      (pageOrChapter \<lparr>pageOrChapter = PNum (Fin 3), text = t, timestamp = n\<rparr>)"
    by (simp add: page3_store_chunks js_num_eq_def)
  note m = addContextChunk_merge[OF page3_store_reachable i k]
  show ?thesis
    using m[of "''a''" 5] m[of "''xy''" 5] m[of "''abcdef''" 5]
    by (simp add: page3_store_chunks) (simp add: chunksOf_def)
qed

subsection \<open>One chunk per key\<close>

text \<open>
  Claim C5, amended. After every sequence of \<^verbatim>\<open>setCurrentBook\<close>, \<^verbatim>\<open>addContextChunk\<close>,
  \<^verbatim>\<open>clearContext\<close> and \<^verbatim>\<open>updatePosition\<close> from the initial store, no book holds two
  chunks whose keys are strictly equal (\<^verbatim>\<open>===\<close>: the same number, or the same string;
  a number and a string are never the same key).
\<close>

theorem store_keys_distinct:
  "distinct_keys (chunksOf (run_context_ops ops initialContextState) b)"
  by (rule distinct_keys_run) (simp add: chunksOf_initial distinct_keys_def)

text \<open>The store after adding the number 3 and the string \<open>3\<close> holds both chunks.\<close>

theorem store_keys_distinct_witness:
  "distinct_keys (chunksOf (run_context_ops
      [AddContextChunk ''b'' \<lparr>pageOrChapter = PNum (Fin 3), text = ''ab'', timestamp = 0\<rparr>,
       AddContextChunk ''b'' \<lparr>pageOrChapter = PStr ''3'', text = ''cd'', timestamp = 0\<rparr>]
      initialContextState) ''b'')
   \<and> length (chunksOf (run_context_ops
      [AddContextChunk ''b'' \<lparr>pageOrChapter = PNum (Fin 3), text = ''ab'', timestamp = 0\<rparr>,
       AddContextChunk ''b'' \<lparr>pageOrChapter = PStr ''3'', text = ''cd'', timestamp = 0\<rparr>]
      initialContextState) ''b'') = 2"
  using store_keys_distinct[of "[AddContextChunk ''b'' \<lparr>pageOrChapter = PNum (Fin 3), text = ''ab'', timestamp = 0\<rparr>,
       AddContextChunk ''b'' \<lparr>pageOrChapter = PStr ''3'', text = ''cd'', timestamp = 0\<rparr>]" "''b''"]
  by (simp add: example_mixed_keys)

text \<open>The claim as stated counts the number 3 and the string \<open>3\<close> as one key. The store
  above holds two chunks whose numeric keys are both 3.\<close>

theorem store_keys_distinct_counterexample:
  "\<not> distinct_numeric (chunksOf (run_context_ops
      [AddContextChunk ''b'' \<lparr>pageOrChapter = PNum (Fin 3), text = ''ab'', timestamp = 0\<rparr>,
       AddContextChunk ''b'' \<lparr>pageOrChapter = PStr ''3'', text = ''cd'', timestamp = 0\<rparr>]
      initialContextState) ''b'')"
  unfolding example_mixed_keys
  by (simp add: distinct_numeric_def js_num_eq_def chunkPos_def keyNum_examples)

subsection \<open>Ascending order\<close>

text \<open>
  Claim C6, amended. After every sequence of operations from the initial store in which
  no added chunk has the number NaN as its key, each book's chunks are in ascending
  order of their numeric keys. For every store whatever, the chunks a read returns are
  in ascending order of their numeric keys, they are the chunks the bound selects, and
  the string read is their texts joined by a blank line.
\<close>

theorem store_sorted:
  assumes "\<forall>op\<in>set ops. no_nan_op op"
  shows "sorted_chunks (chunksOf (run_context_ops ops initialContextState) b)
         \<and> sorted_chunks (relevantChunks b up s)
         \<and> mset (relevantChunks b up s) =
             filter_mset (\<lambda>c. js_le (chunkPos c) (maxPositionOf up)) (mset (chunksOf s b))
         \<and> getFullContext b up s = join [CHR 0x0A, CHR 0x0A] (map text (relevantChunks b up s))"
proof -
  have "clean_sorted (chunksOf initialContextState b)"
    by (simp add: chunksOf_initial clean_sorted_def sorted_chunks_def)
  then have "clean_sorted (chunksOf (run_context_ops ops initialContextState) b)"
    using assms by (rule clean_sorted_run)
  then show ?thesis
    by (simp add: clean_sorted_def relevantChunks_sorted relevantChunks_mset getFullContext_def)
qed

text \<open>The keys 20, \<open>10\<close>, \<open>abc\<close>, \<open>0.3\<close>, \<open>-5\<close> and 2, added in that order, are held in the
  order of their numeric values -5, 0, 0.3, 2, 10 and 20, and the read bounded at 10
  joins the texts of the first five in that order.\<close>

theorem store_sorted_witness:
  "sorted_chunks (chunksOf mixed_keys ''b'')
   \<and> map chunkPos (chunksOf mixed_keys ''b'') =
       [Fin (- 5), Fin 0, Fin (5404319552844595 / 18014398509481984), Fin 2, Fin 10, Fin 20]
   \<and> getFullContext ''b'' (Some (Fin 10)) mixed_keys =
       ''e'' @ [CHR 0x0A, CHR 0x0A] @ ''c'' @ [CHR 0x0A, CHR 0x0A] @ ''d''
       @ [CHR 0x0A, CHR 0x0A] @ ''f'' @ [CHR 0x0A, CHR 0x0A] @ ''b''"
proof -
  have ops: "\<forall>op\<in>set
      [AddContextChunk ''b'' \<lparr>pageOrChapter = PNum (Fin 20), text = ''a'', timestamp = 0\<rparr>,
       AddContextChunk ''b'' \<lparr>pageOrChapter = PStr ''10'', text = ''b'', timestamp = 0\<rparr>,
       AddContextChunk ''b'' \<lparr>pageOrChapter = PStr ''abc'', text = ''c'', timestamp = 0\<rparr>,
       AddContextChunk ''b'' \<lparr>pageOrChapter = PStr ''0.3'', text = ''d'', timestamp = 0\<rparr>,
       AddContextChunk ''b'' \<lparr>pageOrChapter = PStr ''-5'', text = ''e'', timestamp = 0\<rparr>,
       AddContextChunk ''b'' \<lparr>pageOrChapter = PNum (Fin 2), text = ''f'', timestamp = 0\<rparr>].
      no_nan_op op"
    by (simp add: no_nan_op_def nan_key_def)
  have "map chunkPos (chunksOf mixed_keys ''b'') = map keyNum (map pageOrChapter (chunksOf mixed_keys ''b''))"
    by (simp add: chunkPos_def o_def)
  then have pos: "map chunkPos (chunksOf mixed_keys ''b'') =
       [Fin (- 5), Fin 0, Fin (5404319552844595 / 18014398509481984), Fin 2, Fin 10, Fin 20]"
    unfolding mixed_keys_chunks(1) by (simp add: keyNum_examples)
  show ?thesis
    using store_sorted[OF ops, of "''b''" "Some (Fin 10)" mixed_keys] pos
    by (simp add: mixed_keys_chunks(2))
qed

text \<open>The claim as stated allows every key. After the number keys 2, NaN and 1 are added
  in that order the comparator ranks NaN equal to both neighbours, and the book holds 2
  before 1.\<close>

theorem store_sorted_counterexample:
  "\<not> sorted_chunks (chunksOf (run_context_ops
      [AddContextChunk ''b'' \<lparr>pageOrChapter = PNum (Fin 2), text = ''two'', timestamp = 0\<rparr>,
       AddContextChunk ''b'' \<lparr>pageOrChapter = PNum NaN, text = ''nan'', timestamp = 0\<rparr>,
       AddContextChunk ''b'' \<lparr>pageOrChapter = PNum (Fin 1), text = ''one'', timestamp = 0\<rparr>]
      initialContextState) ''b'')"
  unfolding example_nan_order
  by (simp add: sorted_chunks_def chunkPos_def keyNum_def js_le_def)

text \<open>No order of the engine's choice would do: a list of two or more chunks of which one
  is keyed NaN is in no ascending order.\<close>

lemma nan_key_never_sorted:
  assumes "c \<in> set cs" "nan_key c" "2 \<le> length cs"
  shows "\<not> sorted_chunks cs"
proof
  assume s: "sorted_chunks cs"
  obtain i where i: "i < length cs" "cs ! i = c"
    using assms(1) by (auto simp: in_set_conv_nth)
  obtain j where j: "j < length cs" "j \<noteq> i"
    using assms(3) by (cases "i = 0") (auto intro: that[of 1] that[of 0])
  have "js_le (chunkPos (cs ! i)) (chunkPos (cs ! j)) \<or> js_le (chunkPos (cs ! j)) (chunkPos (cs ! i))"
    using s i(1) j
    by (metis sorted_chunks_def sorted_wrt_iff_nth_less linorder_neqE_nat)
  then show False
    using i(2) assms(2) by (auto simp: js_le_def chunkPos_NaN_iff)
qed

section \<open>The chat store and the hook useAIChat\<close>

subsection \<open>Histories hold no empty assistant message\<close>

lemma finalize_empty_buffer:
  "streamingResponse a = [] \<Longrightarrow> finalizeStreamingMessage b idNow tsNow a = a"
  by (simp add: finalizeStreamingMessage_def)

lemma getChatHistory_addMessage:
  "getChatHistory b' (addMessage b m a) =
     (if b' = b then getChatHistory b a @ [m] else getChatHistory b' a)"
  by (simp add: getChatHistory_def addMessage_def)

lemma getChatHistory_simps:
  "getChatHistory b (setLoading l a) = getChatHistory b a"
  "getChatHistory b (setError e a) = getChatHistory b a"
  "getChatHistory b (setStreamingResponse r a) = getChatHistory b a"
  "getChatHistory b (appendStreamingResponse c a) = getChatHistory b a"
  "getChatHistory b (clearChat b' a) = (if b = b' then [] else getChatHistory b a)"
  by (simp_all add: getChatHistory_def setLoading_def setError_def setStreamingResponse_def
      appendStreamingResponse_def clearChat_def)

lemma nea_addMessage:
  "no_empty_assistant a \<Longrightarrow> \<not> empty_assistant_message m \<Longrightarrow> no_empty_assistant (addMessage b m a)"
  by (auto simp: no_empty_assistant_def getChatHistory_addMessage)

lemma nea_setters:
  "no_empty_assistant a \<Longrightarrow> no_empty_assistant (setLoading l a)"
  "no_empty_assistant a \<Longrightarrow> no_empty_assistant (setError e a)"
  "no_empty_assistant a \<Longrightarrow> no_empty_assistant (setStreamingResponse r a)"
  "no_empty_assistant a \<Longrightarrow> no_empty_assistant (appendStreamingResponse c a)"
  "no_empty_assistant a \<Longrightarrow> no_empty_assistant (clearChat b a)"
  by (simp_all add: no_empty_assistant_def getChatHistory_simps)

lemma nea_finalize:
  "no_empty_assistant a \<Longrightarrow> no_empty_assistant (finalizeStreamingMessage b idNow tsNow a)"
  by (simp add: finalizeStreamingMessage_def nea_setters nea_addMessage empty_assistant_message_def)

lemma nea_process_lines:
  "no_empty_assistant a \<Longrightarrow> no_empty_assistant (process_lines b idNow tsNow ls a)"
  by (induction b idNow tsNow ls a rule: process_lines.induct)
     (simp_all add: nea_finalize nea_setters)

lemma nea_catch: "no_empty_assistant a \<Longrightarrow> no_empty_assistant (catch_block e a)"
  by (cases e) (simp_all add: catch_block_def nea_setters)

lemma nea_finally:
  "no_empty_assistant (assistant w) \<Longrightarrow> no_empty_assistant (assistant (finally_block w))"
  by (simp add: finally_block_def nea_setters)

lemma nea_start:
  assumes "no_empty_assistant (assistant w)"
  shows "no_empty_assistant (assistant (snd (sendMessage_start cl message position idNow tsNow w)))"
proof (cases "trim message = [] \<or> cl_isLoading cl")
  case True
  then show ?thesis using assms by (simp add: sendMessage_start_def)
next
  case False
  then show ?thesis
    using assms
    by (auto simp: sendMessage_start_def Let_def finally_block_def nea_setters nea_addMessage
        empty_assistant_message_def split: option.splits)
qed

lemma nea_resume:
  assumes "no_empty_assistant (assistant w)"
  shows "no_empty_assistant (assistant (snd (sendMessage_resume b idNow tsNow ph ev w)))"
  using assms
  by (cases ph; cases ev)
     (simp_all add: sendMessage_resume_def Let_def finally_block_def nea_setters nea_catch
        nea_process_lines nea_finalize)

lemma nea_action:
  "no_empty_assistant (assistant w) \<Longrightarrow> no_empty_assistant (assistant (apply_chat_action w act))"
  by (cases act)
     (auto simp: nea_start nea_resume cancelRequest_def clear_def nea_setters split: option.splits)

lemma nea_run:
  "no_empty_assistant (assistant w) \<Longrightarrow> no_empty_assistant (assistant (run_chat acts w))"
  unfolding run_chat_def
  by (induction acts arbitrary: w) (simp_all add: nea_action)

lemma nea_initial: "no_empty_assistant (assistant (initialChatWorld ctx))"
  by (simp add: no_empty_assistant_def initialChatWorld_def initialAssistantState_def
      getChatHistory_def)

text \<open>
  Claim C10. With an empty streaming buffer \<^verbatim>\<open>finalizeStreamingMessage\<close> returns the
  state it was given: nothing is appended and no field changes. And whatever the hook
  does from the initial state (calls of \<^verbatim>\<open>sendMessage\<close>, their resumptions by any
  events, cancellations, clearing), no history holds an assistant message whose content
  is empty.
\<close>

theorem finalize_empty_noop:
  "(streamingResponse a = [] \<longrightarrow> finalizeStreamingMessage b idNow tsNow a = a)
   \<and> (\<forall>m\<in>set (getChatHistory b (assistant (run_chat acts (initialChatWorld ctx)))).
         \<not> empty_assistant_message m)"
proof -
  have "no_empty_assistant (assistant (run_chat acts (initialChatWorld ctx)))"
    by (rule nea_run) (rule nea_initial)
  then show ?thesis
    by (simp add: finalize_empty_buffer no_empty_assistant_def)
qed

text \<open>Finalising the initial state changes nothing; a request answered by \<open>Hello\<close>
  leaves the question and the answer in the history.\<close>

lemma answered_request_history:
  "map content (getChatHistory ''b'' (assistant (run_chat answered_request (initialChatWorld one_page_store))))
     = [''hi'', ''Hello'']"
  by code_simp

theorem finalize_empty_noop_witness:
  "finalizeStreamingMessage ''b'' 13 13 initialAssistantState = initialAssistantState
   \<and> map content (getChatHistory ''b''
        (assistant (run_chat answered_request (initialChatWorld one_page_store)))) = [''hi'', ''Hello'']
   \<and> filter empty_assistant_message (getChatHistory ''b''
        (assistant (run_chat answered_request (initialChatWorld one_page_store)))) = []"
  using finalize_empty_noop[of initialAssistantState "''b''" 13 13 answered_request one_page_store]
  by (simp add: answered_request_history filter_empty_conv initialAssistantState_def)

subsection \<open>The empty-context guard\<close>

lemma empty_store_context: "getFullContext b up initialContextState = []"
  by (simp add: getFullContext_def relevantChunks_def chunksOf_def initialContextState_def)

lemma trim_Nil: "trim [] = []"
  by (simp add: trim_def)

text \<open>
  Claim C2, amended. Let the bounded context of the book at the effective position be
  empty after trimming. Then \<^verbatim>\<open>sendMessage\<close> makes no call of the transport and is not
  left suspended, whatever the message. When moreover the message is not empty after
  trimming and the callback was created while no request was loading, the call returns
  at the guard with the error \<^verbatim>\<open>No content has been read yet. Start reading to use the AI
  assistant!\<close> set and the loading flag cleared.
\<close>

theorem sendMessage_empty_context:
  assumes "trim (getFullContext (cl_bookId cl)
             (Some (case position of Some p \<Rightarrow> p | None \<Rightarrow> cl_currentPosition cl))
             (bookContext w)) = []"
  shows "fetches (snd (sendMessage_start cl message position idNow tsNow w)) = fetches w
       \<and> fst (sendMessage_start cl message position idNow tsNow w) \<in> {Ignored, NoContent}
       \<and> (trim message \<noteq> [] \<and> \<not> cl_isLoading cl \<longrightarrow>
            fst (sendMessage_start cl message position idNow tsNow w) = NoContent
          \<and> error (assistant (snd (sendMessage_start cl message position idNow tsNow w)))
              = Some no_content_error
          \<and> \<not> isLoading (assistant (snd (sendMessage_start cl message position idNow tsNow w))))
       \<and> take 28 no_content_error = ''No content has been read yet''"
  using assms
  by (auto simp: sendMessage_start_def Let_def finally_block_def setLoading_def setError_def
      no_content_error_def split: option.splits)

text \<open>\<open>hello\<close> on a book with no chunk.\<close>

theorem sendMessage_empty_context_witness:
  "fst (sendMessage_start example_closure ''hello'' None 7 7 (initialChatWorld initialContextState))
     = NoContent
   \<and> error (assistant (snd (sendMessage_start example_closure ''hello'' None 7 7
        (initialChatWorld initialContextState)))) = Some no_content_error
   \<and> fetches (snd (sendMessage_start example_closure ''hello'' None 7 7
        (initialChatWorld initialContextState))) = []"
  using sendMessage_empty_context[of example_closure None "initialChatWorld initialContextState"
      "''hello''" 7 7]
  by (simp add: empty_store_context trim_Nil initialChatWorld_def) (simp add: trim_def is_ws_def)

text \<open>The claim as stated has every non-empty message set the error and clear the
  loading flag. On a book with no chunk, the message of one blank sets no error; and
  \<open>hello\<close> sent through a callback created while a request was loading sets no error
  and leaves the loading flag set.\<close>

theorem sendMessage_empty_context_counterexample:
  "trim (getFullContext ''b'' (Some (Fin 2)) initialContextState) = []
   \<and> '' '' \<noteq> []
   \<and> error (assistant (snd (sendMessage_start example_closure '' '' None 7 7
        (initialChatWorld initialContextState)))) = None
   \<and> ''hello'' \<noteq> []
   \<and> error (assistant (snd (sendMessage_start (example_closure\<lparr>cl_isLoading := True\<rparr>) ''hello'' None 7 7
        ((initialChatWorld initialContextState)\<lparr>assistant := setLoading True initialAssistantState\<rparr>))))
       = None
   \<and> isLoading (assistant (snd (sendMessage_start (example_closure\<lparr>cl_isLoading := True\<rparr>) ''hello'' None 7 7
        ((initialChatWorld initialContextState)\<lparr>assistant := setLoading True initialAssistantState\<rparr>))))"
  by (simp add: empty_store_context trim_Nil sendMessage_start_def initialChatWorld_def
      initialAssistantState_def setLoading_def) (simp add: trim_def is_ws_def)

subsection \<open>A request superseded by another\<close>

lemma sendMessage_start_proceeds:
  assumes "trim message \<noteq> []" "\<not> cl_isLoading cl"
    and "trim (getFullContext (cl_bookId cl)
             (Some (case position of Some p \<Rightarrow> p | None \<Rightarrow> cl_currentPosition cl))
             (bookContext w)) \<noteq> []"
  shows "fst (sendMessage_start cl message position idNow tsNow w) = AwaitFetch (controllers w)"
    and "aborted (snd (sendMessage_start cl message position idNow tsNow w)) =
           (case abortControllerRef w of Some k \<Rightarrow> aborted w @ [k] | None \<Rightarrow> aborted w)"
    and "abortControllerRef (snd (sendMessage_start cl message position idNow tsNow w)) =
           Some (controllers w)"
    and "controllers (snd (sendMessage_start cl message position idNow tsNow w)) =
           Suc (controllers w)"
    and "bookContext (snd (sendMessage_start cl message position idNow tsNow w)) = bookContext w"
    and "assistant (snd (sendMessage_start cl message position idNow tsNow w)) =
           setStreamingResponse []
             (setError None
               (setLoading True
                 (addMessage (cl_bookId cl)
                    \<lparr>msg_id = ''user-'' @ decimal idNow, role = User,
                     content = trim message, msg_timestamp = tsNow\<rparr> (assistant w))))"
  using assms
  by (auto simp: sendMessage_start_def Let_def split: option.splits)

lemma sendMessage_resume_abort:
  assumes "ph \<noteq> Returned"
  shows "sendMessage_resume b idNow tsNow ph (Rejected AbortError) w =
           (Returned, w\<lparr>assistant := setLoading False (assistant w), abortControllerRef := None\<rparr>)"
  using assms
  by (cases ph) (simp_all add: sendMessage_resume_def finally_block_def catch_block_def)

lemma isLoading_setters:
  "isLoading (setLoading l a) = l"
  "isLoading (setError e a) = isLoading a"
  "isLoading (setStreamingResponse r a) = isLoading a"
  by (simp_all add: setLoading_def setError_def setStreamingResponse_def)

lemma trim_first: "trim ''first'' = ''first''" "trim ''second'' = ''second''"
  "trim (''[Page 2]'' @ [CHR 0x0A] @ ''text'') \<noteq> []"
  by (simp_all add: trim_def is_ws_def)

lemma one_page_context:
  "getFullContext ''b'' (Some (Fin 2)) one_page_store = ''[Page 2]'' @ [CHR 0x0A] @ ''text''"
  by (simp add: getFullContext_def relevantChunks_def addContextChunk_def chunksOf_def
      initialContextState_def Let_def pdfChunk_def chunkPos_def keyNum_def js_le_def
      maxPositionOf_def decimal.simps digit_char_def)

lemma one_page_proceeds:
  "trim (getFullContext (cl_bookId example_closure)
      (Some (case None of Some p \<Rightarrow> p | None \<Rightarrow> cl_currentPosition example_closure))
      one_page_store) \<noteq> []"
  by (simp add: one_page_context) (simp add: trim_def is_ws_def)

lemma world_A_facts:
  "fst (sendMessage_start example_closure ''first'' None 11 11 (initialChatWorld one_page_store))
     = AwaitFetch 0"
  "abortControllerRef world_A = Some 0"
  "controllers world_A = 1"
  "aborted world_A = []"
  "bookContext world_A = one_page_store"
proof -
  have t: "trim ''first'' \<noteq> []" by (simp add: trim_first)
  have l: "\<not> cl_isLoading example_closure" by simp
  have c: "trim (getFullContext (cl_bookId example_closure)
      (Some (case None of Some p \<Rightarrow> p | None \<Rightarrow> cl_currentPosition example_closure))
      (bookContext (initialChatWorld one_page_store))) \<noteq> []"
    using one_page_proceeds by (simp add: initialChatWorld_def)
  note f = sendMessage_start_proceeds[OF t l c, of 11 11]
  show "fst (sendMessage_start example_closure ''first'' None 11 11 (initialChatWorld one_page_store))
     = AwaitFetch 0"
    using f(1) by (simp add: initialChatWorld_def)
  show "abortControllerRef world_A = Some 0"
    using f(3) by (simp add: initialChatWorld_def)
  show "controllers world_A = 1"
    using f(4) by (simp add: initialChatWorld_def)
  show "aborted world_A = []"
    using f(2) by (simp add: initialChatWorld_def)
  show "bookContext world_A = one_page_store"
    using f(5) by (simp add: initialChatWorld_def)
qed

lemma world_B_facts:
  "fst (sendMessage_start example_closure ''second'' None 12 12 world_A) = AwaitFetch 1"
  "abortControllerRef world_B = Some 1"
  "aborted world_B = [0]"
  "isLoading (assistant world_B)"
proof -
  have t: "trim ''second'' \<noteq> []" by (simp add: trim_first)
  have l: "\<not> cl_isLoading example_closure" by simp
  have c: "trim (getFullContext (cl_bookId example_closure)
      (Some (case None of Some p \<Rightarrow> p | None \<Rightarrow> cl_currentPosition example_closure))
      (bookContext world_A)) \<noteq> []"
    unfolding world_A_facts(5) by (rule one_page_proceeds)
  note f = sendMessage_start_proceeds[OF t l c, of 12 12]
  show "fst (sendMessage_start example_closure ''second'' None 12 12 world_A) = AwaitFetch 1"
    using f(1) by (simp only: world_A_facts(3))
  show "abortControllerRef world_B = Some 1"
    using f(3) by (simp only: world_A_facts(3))
  show "aborted world_B = [0]"
    using f(2) by (simp only: world_A_facts(2,4) option.case append_Nil)
  show "isLoading (assistant world_B)"
    unfolding f(6) by (simp add: isLoading_setters)
qed

text \<open>
  Claim C3, evaluated on the code. The request \<open>first\<close> is suspended at its fetch with
  controller 0. The request \<open>second\<close>, started through the same callback, aborts
  controller 0, takes controller 1 into the ref and sets the loading flag. The abort
  rejects the fetch of \<open>first\<close>; its \<^verbatim>\<open>catch\<close> block returns, and its \<^verbatim>\<open>finally\<close> block
  clears the loading flag and empties the ref while \<open>second\<close> is still suspended at its
  fetch, so that \<^verbatim>\<open>cancelRequest\<close> no longer reaches it.
\<close>

theorem stale_request_clobbers:
  "fst (sendMessage_start example_closure ''first'' None 11 11 (initialChatWorld one_page_store))
     = AwaitFetch 0
   \<and> fst (sendMessage_start example_closure ''second'' None 12 12 world_A) = AwaitFetch 1
   \<and> aborted world_B = [0]
   \<and> abortControllerRef world_B = Some 1
   \<and> isLoading (assistant world_B)
   \<and> fst (sendMessage_resume ''b'' 13 13 AtFetch (Rejected AbortError) world_B) = Returned
   \<and> \<not> isLoading (assistant world_B_after_A)
   \<and> abortControllerRef world_B_after_A = None
   \<and> cancelRequest world_B_after_A = world_B_after_A"
proof -
  have r: "sendMessage_resume ''b'' 13 13 AtFetch (Rejected AbortError) world_B =
      (Returned, world_B\<lparr>assistant := setLoading False (assistant world_B), abortControllerRef := None\<rparr>)"
    by (rule sendMessage_resume_abort) simp
  have "cancelRequest world_B_after_A = world_B_after_A"
    unfolding r by (simp add: cancelRequest_def)
  moreover have "\<not> isLoading (assistant world_B_after_A)"
    unfolding r by (simp add: isLoading_setters)
  moreover have "abortControllerRef world_B_after_A = None"
    unfolding r by simp
  moreover have "fst (sendMessage_resume ''b'' 13 13 AtFetch (Rejected AbortError) world_B) = Returned"
    unfolding r by simp
  ultimately show ?thesis
    using world_A_facts(1) world_B_facts by blast
qed

section \<open>The hook useTextExtraction\<close>

lemma foldl_js_max2_Fin:
  "foldl js_max2 (Fin (of_nat a)) (map (\<lambda>p. Fin (of_nat p)) xs) = Fin (of_nat (Max (insert a (set xs))))"
proof (induction xs arbitrary: a)
  case Nil
  then show ?case by simp
next
  case (Cons x xs)
  have "js_max2 (Fin (of_nat a)) (Fin (of_nat x)) = Fin (of_nat (max a x))"
    by (simp add: js_max2_def max_def)
  moreover have "Max (insert (max a x) (set xs)) = Max (insert a (insert x (set xs)))"
    by (cases "set xs = {}") (simp_all add: max.assoc)
  ultimately show ?case
    using Cons.IH[of "max a x"] by simp
qed

lemma Math_max_pages:
  "Math_max (map (\<lambda>p. Fin (of_nat p)) xs) =
     (if xs = [] then NegInf else Fin (of_nat (Max (set xs))))"
proof (cases xs)
  case Nil
  then show ?thesis by (simp add: Math_max_def)
next
  case (Cons x ys)
  have "js_max2 NegInf (Fin (of_nat x)) = Fin (of_nat x)"
    by (simp add: js_max2_def)
  then show ?thesis
    using Cons foldl_js_max2_Fin[of x ys] by (simp add: Math_max_def)
qed

lemma finish_position:
  "currentPosition (contextStore (extractPDFPagesUpTo_finish n w)) =
     (if extractedPagesRef w = [] then Fin (of_nat n)
      else if filter (\<lambda>p. p \<le> n) (extractedPagesRef w) = [] then NegInf
      else Fin (of_nat (Max {p \<in> set (extractedPagesRef w). p \<le> n})))"
  by (simp add: extractPDFPagesUpTo_finish_def Let_def updatePosition_def Math_max_pages)

lemma first_pass:
  "extractedPagesRef (extractPDFPagesUpTo ''b'' 0 blank_then_text 2 initialExtractionWorld) = [2]
   \<and> extractionQueueRef (extractPDFPagesUpTo ''b'' 0 blank_then_text 2 initialExtractionWorld) = []
   \<and> currentPosition (contextStore
        (extractPDFPagesUpTo ''b'' 0 blank_then_text 2 initialExtractionWorld)) = Fin 2"
  by code_simp

text \<open>
  Claim C7, evaluated on the code. Page 2 of the document has text and page 1 has none.
  After \<^verbatim>\<open>extractPDFPagesUpTo(doc, 2)\<close> page 2 is extracted and the position is 2. After
  \<^verbatim>\<open>extractPDFPagesUpTo(doc, 1)\<close> on that state, the set of extracted pages is not empty
  and none of them is at most 1, so the position is \<^verbatim>\<open>Math.max()\<close>, minus infinity.
\<close>

theorem position_minus_infinity:
  "currentPosition (contextStore (extractPDFPagesUpTo ''b'' 0 blank_then_text 1
      (extractPDFPagesUpTo ''b'' 0 blank_then_text 2 initialExtractionWorld))) = NegInf"
  by code_simp



lemma io_in_flight_launch:
  "io_in_flight (extractPDFPagesUpTo_launch n w) =
     length (filter (\<lambda>i. i \<notin> set (extractedPagesRef w) \<and> i \<notin> set (extractionQueueRef w))
        [1..<Suc n])"
  by (simp add: io_in_flight_def extractPDFPagesUpTo_launch_def filter_map o_def)

lemma io_in_flight_fresh:
  "io_in_flight (extractPDFPagesUpTo_launch n initialExtractionWorld) = n"
  by (simp add: io_in_flight_launch initialExtractionWorld_def)

text \<open>
  Claim C8, evaluated on the code. When the first loop of \<^verbatim>\<open>extractPDFPagesUpTo(doc, 10)\<close>
  ends on a fresh hook, ten promises are suspended at \<^verbatim>\<open>getPage\<close>, one for each of the
  pages 1 to 10, before the first batch of three is awaited.
\<close>

theorem all_pages_launched_at_once:
  "io_in_flight (extractPDFPagesUpTo_launch 10 initialExtractionWorld) = 10
   \<and> map fst (extractPDFPagesUpTo_launch 10 initialExtractionWorld)
       = [1, 2, 3, 4, 5, 6, 7, 8, 9, 10]
   \<and> length (hd (batches_of_3 (extractPDFPagesUpTo_launch 10 initialExtractionWorld))) = 3"
  by (simp add: io_in_flight_fresh)
     (simp add: extractPDFPagesUpTo_launch_def initialExtractionWorld_def upt_rec)

section \<open>The route /api/ai-assistant\<close>

text \<open>
  Claim C9. Whenever the route reaches the provider, the messages it sends are the
  system prompt, the context message, the last six history entries and the user's
  message. The context message is \<^verbatim>\<open>CONTEXT:\<close>, a line feed, the first 12000 characters
  of the book context, and then a line feed and \<^verbatim>\<open>[truncated]\<close> exactly when the context
  is longer than 12000 characters; a context of at most 12000 characters follows the
  heading as it is.
\<close>

theorem context_truncated:
  assumes "POST numberToString authenticated groq openai body = Inr r"
  shows "pr_messages r =
           [\<lparr>pm_role = RSystem,
             pm_content = systemPrompt (req_bookTitle body) (req_bookAuthor body)
                            (numberToString (req_currentPosition body))\<rparr>,
            \<lparr>pm_role = RSystem, pm_content = contextMessage (req_bookContext body)\<rparr>]
           @ map (\<lambda>(r, c). \<lparr>pm_role = role_of r, pm_content = c\<rparr>)
               (slice_last 6 (req_chatHistory body))
           @ [\<lparr>pm_role = RUser, pm_content = req_message body\<rparr>]
       \<and> contextMessage (req_bookContext body) =
           ''CONTEXT:'' @ [CHR 0x0A] @ take 12000 (req_bookContext body)
           @ (if 12000 < length (req_bookContext body) then [CHR 0x0A] @ ''[truncated]'' else [])
       \<and> length (take 12000 (req_bookContext body)) \<le> 12000
       \<and> (length (req_bookContext body) \<le> 12000 \<longrightarrow>
            contextMessage (req_bookContext body) = ''CONTEXT:'' @ [CHR 0x0A] @ req_bookContext body)"
  using assms
  by (auto simp: POST_def contextMessage_def split: if_splits option.splits)

text \<open>A context of 12001 characters is cut to 12000 and marked; \<open>abc\<close> is sent as it
  is.\<close>

theorem context_truncated_witness:
  "pm_content (pr_messages (projr (POST (\<lambda>n. ''2'') True (Some ''key'') None long_request)) ! 1)
     = ''CONTEXT:'' @ [CHR 0x0A] @ replicate 12000 (CHR ''a'') @ [CHR 0x0A] @ ''[truncated]''
   \<and> contextMessage ''abc'' = ''CONTEXT:'' @ [CHR 0x0A] @ ''abc''"
proof -
  have eq: "POST (\<lambda>n. ''2'') True (Some ''key'') None long_request
              = Inr (projr (POST (\<lambda>n. ''2'') True (Some ''key'') None long_request))"
    by (simp add: POST_def getAIConfig_def)
  have "contextMessage ''abc'' = ''CONTEXT:'' @ [CHR 0x0A] @ ''abc''"
    by (simp add: contextMessage_def)
  then show ?thesis
    using context_truncated[OF eq] by simp
qed

end
